theory Spec2Isabelle
  imports Main "HOL-Library.Sublist" "HOL-Library.AList"
begin

section \<open>Values and strings of the script\<close>

text \<open>
  The camera app (sleuth/js/app.js) receives untyped values from the host bridge and
  walks them. A value is modelled as the JSON-like sum the walk distinguishes:
  \<open>null\<close>, booleans, numbers, strings, arrays and plain objects. \<open>undefined\<close> is the
  absence of a property (a lookup that yields \<open>None\<close>). An object is the list of its own
  properties in enumeration order (the order of \<open>Object.keys\<close>); property names are
  unique in a real object, and a lookup takes the first binding.

  Numbers are carried as integers: the script only asks for their type, their
  truthiness and their decimal text. Strings are lists of 8-bit characters; the string
  functions below are the ECMAScript ones on ASCII text (one character per UTF-16 code
  unit, ASCII white space, ASCII letter case).
\<close>

datatype js =
    JNull
  | JBool bool
  | JNum int
  | JStr string
  | JArr "js list"
  | JObj "(string \<times> js) list"

text \<open>ToBoolean: \<open>!!value\<close>, and the test of \<open>if (value)\<close> and \<open>a || b\<close>.\<close>

fun truthy :: "js \<Rightarrow> bool" where
  "truthy JNull = False"
| "truthy (JBool b) = b"
| "truthy (JNum n) = (n \<noteq> 0)"
| "truthy (JStr s) = (s \<noteq> [])"
| "truthy (JArr xs) = True"
| "truthy (JObj ps) = True"

text \<open>\<open>value[key]\<close> and \<open>value.key\<close>; \<open>None\<close> is \<open>undefined\<close>.\<close>

fun getProp :: "js \<Rightarrow> string \<Rightarrow> js option" where
  "getProp (JObj ps) key = map_of ps key"
| "getProp value key = None"

text \<open>\<open>typeof value[key] === 'string'\<close>.\<close>

definition isStringProp :: "js \<Rightarrow> string \<Rightarrow> bool" where
  "isStringProp value key = (case getProp value key of Some (JStr s) \<Rightarrow> True | _ \<Rightarrow> False)"

text \<open>White space of \<open>\s\<close> and \<open>trim\<close>: tab, line feed, vertical tab, form feed,
  carriage return, space.\<close>

definition isSpace :: "char \<Rightarrow> bool" where
  "isSpace c = (let n = (of_char c :: nat) in (9 \<le> n \<and> n \<le> 13) \<or> n = 32)"

definition trim :: "string \<Rightarrow> string" where
  "trim s = rev (dropWhile isSpace (rev (dropWhile isSpace s)))"

definition upperChar :: "char \<Rightarrow> char" where
  "upperChar c = (let n = (of_char c :: nat) in if 97 \<le> n \<and> n \<le> 122 then char_of (n - 32) else c)"

definition lowerChar :: "char \<Rightarrow> char" where
  "lowerChar c = (let n = (of_char c :: nat) in if 65 \<le> n \<and> n \<le> 90 then char_of (n + 32) else c)"

definition toUpperCase :: "string \<Rightarrow> string" where
  "toUpperCase s = map upperChar s"

definition toLowerCase :: "string \<Rightarrow> string" where
  "toLowerCase s = map lowerChar s"

text \<open>\<open>s.includes(sub)\<close>: \<open>sub\<close> occurs in \<open>s\<close> as a contiguous run.\<close>

fun includes_str :: "string \<Rightarrow> string \<Rightarrow> bool" where
  "includes_str [] sub = (sub = [])"
| "includes_str (c # cs) sub = (prefix sub (c # cs) \<or> includes_str cs sub)"

text \<open>\<open>s.indexOf(c)\<close> and \<open>s.lastIndexOf(c)\<close> for a single character; \<open>None\<close> is \<open>-1\<close>.\<close>

fun indexOf :: "string \<Rightarrow> char \<Rightarrow> nat option" where
  "indexOf [] c = None"
| "indexOf (x # xs) c = (if x = c then Some 0 else map_option Suc (indexOf xs c))"

definition lastIndexOf :: "string \<Rightarrow> char \<Rightarrow> nat option" where
  "lastIndexOf s c = map_option (\<lambda>i. length s - 1 - i) (indexOf (rev s) c)"

text \<open>\<open>s.slice(start, end)\<close> for \<open>0 \<le> start\<close>, \<open>0 \<le> end\<close>.\<close>

definition slice :: "string \<Rightarrow> nat \<Rightarrow> nat \<Rightarrow> string" where
  "slice s start stop = take (stop - start) (drop start s)"

section \<open>The host\<close>

text \<open>
  What the page is given by its host and by the language runtime, and does not define
  itself. \<open>JSON_parse\<close> is \<open>JSON.parse\<close>, with \<open>None\<close> for a thrown SyntaxError; every
  theorem below holds for whatever it returns. \<open>pluginHandler\<close> is
  \<open>PluginMessageHandler\<close>: \<open>None\<close> when the global is undefined (dev mode), otherwise
  whether \<open>postMessage\<close> returns (\<open>True\<close>) or throws synchronously (\<open>False\<close>).
  \<open>videoWidth\<close> is the decoded width of the video (0 while it has none), \<open>frame\<close> the
  data URL the canvas yields, \<open>hasBorderColor\<close> whether \<open>updateAppBorderColor\<close> is
  defined, and \<open>hasStorage\<close> whether \<open>window.creationStorage.plain\<close> exists.
\<close>

record host =
  JSON_parse :: "string \<Rightarrow> js option"
  pluginHandler :: "bool option"
  videoWidth :: nat
  frame :: string
  hasBorderColor :: bool
  hasStorage :: bool

section \<open>Payload normalizer\<close>

text \<open>
  \<open>cleanJSONText(raw)\<close>: three regular-expression replacements and a trim.
  \<^item> \<open>/^```json\s*/i\<close> removes a leading fence with the tag, in any letter case, and
    the white space after it;
  \<^item> \<open>/^```\s*/i\<close> removes a leading bare fence and the white space after it;
  \<^item> \<open>/```\s*$/i\<close> removes a fence that only white space separates from the end of
    the text, with that white space (the only place such a match can start is three
    characters before the trailing white space).
\<close>

definition stripFenceJson :: "string \<Rightarrow> string" where
  "stripFenceJson s =
     (if take 3 s = ''```'' \<and> toLowerCase (take 4 (drop 3 s)) = ''json''
      then dropWhile isSpace (drop 7 s) else s)"

definition stripFenceOpen :: "string \<Rightarrow> string" where
  "stripFenceOpen s = (if take 3 s = ''```'' then dropWhile isSpace (drop 3 s) else s)"

definition stripFenceClose :: "string \<Rightarrow> string" where
  "stripFenceClose s =
     (let body = rev (dropWhile isSpace (rev s))
      in if suffix ''```'' body then take (length body - 3) body else s)"

definition cleanJSONText :: "string \<Rightarrow> string" where
  "cleanJSONText raw = trim (stripFenceClose (stripFenceOpen (stripFenceJson raw)))"

text \<open>
  \<open>tryParseJSON(raw)\<close>: \<open>null\<close> for a non-string and for text that is empty once
  cleaned; the parsed value when the cleaned text parses; otherwise the text between the
  first \<open>{\<close> and the last \<open>}\<close> is tried, and \<open>null\<close> is the answer when that fails too.
\<close>

definition tryParseJSON :: "host \<Rightarrow> js \<Rightarrow> js" where
  "tryParseJSON h raw =
     (case raw of
        JStr s \<Rightarrow>
          (let cleaned = cleanJSONText s in
           if cleaned = [] then JNull
           else case JSON_parse h cleaned of
             Some v \<Rightarrow> v
           | None \<Rightarrow>
               (case (indexOf cleaned (CHR ''{''), lastIndexOf cleaned (CHR ''}'')) of
                  (Some start, Some stop) \<Rightarrow>
                    (if stop > start
                     then (case JSON_parse h (slice cleaned start (stop + 1)) of
                             Some v \<Rightarrow> v | None \<Rightarrow> JNull)
                     else JNull)
                | _ \<Rightarrow> JNull))
      | _ \<Rightarrow> JNull)"

text \<open>\<open>isResultPayload(value)\<close>: an object (an array has none of these properties) one
  of whose six result fields holds a string.\<close>

definition isResultPayload :: "js \<Rightarrow> bool" where
  "isResultPayload value =
     (truthy value \<and> (case value of JObj ps \<Rightarrow> True | JArr xs \<Rightarrow> True | _ \<Rightarrow> False) \<and>
      (isStringProp value ''name'' \<or> isStringProp value ''category'' \<or>
       isStringProp value ''description'' \<or> isStringProp value ''fun_fact'' \<or>
       isStringProp value ''reason'' \<or> isStringProp value ''result''))"

definition wrapperKeys :: "string list" where
  "wrapperKeys = [''data'', ''parsedData'', ''message'', ''response'', ''payload'', ''result'',
     ''output'', ''output_text'', ''content'', ''text'', ''llmResponse'', ''assistant'']"

text \<open>The loops \<open>for (const x of xs) { const nested = f(x); if (nested) return nested; }
  return null;\<close>\<close>

fun firstTruthy :: "('a \<Rightarrow> js) \<Rightarrow> 'a list \<Rightarrow> js" where
  "firstTruthy f [] = JNull"
| "firstTruthy f (x # xs) = (let nested = f x in if truthy nested then nested else firstTruthy f xs)"

text \<open>
  \<open>extractResultPayload(value, depth)\<close>. A wrapper key the object does not own is
  skipped by the loop, which is the same as finding nothing under it.
\<close>

function extractResultPayload :: "host \<Rightarrow> js \<Rightarrow> nat \<Rightarrow> js" where
  "extractResultPayload h value depth =
     (if depth > 5 \<or> value = JNull then JNull
      else case value of
        JStr s \<Rightarrow>
          (let parsedString = tryParseJSON h value in
           if truthy parsedString then extractResultPayload h parsedString (depth + 1) else JNull)
      | JArr items \<Rightarrow> firstTruthy (\<lambda>item. extractResultPayload h item (depth + 1)) items
      | JObj ps \<Rightarrow>
          (if isResultPayload value then value
           else firstTruthy
                  (\<lambda>key. case map_of ps key of
                            Some nested \<Rightarrow> extractResultPayload h nested (depth + 1)
                          | None \<Rightarrow> JNull)
                  wrapperKeys)
      | _ \<Rightarrow> JNull)"
  by pat_completeness auto
termination
  by (relation "measure (\<lambda>(h, value, depth). 6 - depth)") auto

declare extractResultPayload.simps [simp del]

definition textKeys :: "string list" where
  "textKeys = [''data'', ''message'', ''response'', ''output'', ''content'', ''text'',
     ''output_text'', ''assistant'', ''answer'', ''reply'', ''transcript'']"

text \<open>The loops \<open>for (const x of xs) { const nested = f(x); if (nested) return nested; }
  return '';\<close> over strings.\<close>

fun firstText :: "('a \<Rightarrow> string) \<Rightarrow> 'a list \<Rightarrow> string" where
  "firstText f [] = []"
| "firstText f (x # xs) = (let nested = f x in if nested \<noteq> [] then nested else firstText f xs)"

text \<open>
  \<open>extractPlainText(value, depth)\<close>. For an object, three passes: the first text key
  that holds a string with something left after trimming; then the first text key that
  holds an object or an array with text inside; then every own property in enumeration
  order.
\<close>

function extractPlainText :: "js \<Rightarrow> nat \<Rightarrow> string" where
  "extractPlainText value depth =
     (if depth > 5 \<or> value = JNull then []
      else case value of
        JArr items \<Rightarrow> firstText (\<lambda>item. extractPlainText item (depth + 1)) items
      | JStr s \<Rightarrow> trim s
      | JObj ps \<Rightarrow>
          (let direct = firstText (\<lambda>key. case map_of ps key of Some (JStr s) \<Rightarrow> trim s | _ \<Rightarrow> []) textKeys in
           if direct \<noteq> [] then direct
           else
             let inKeys = firstText
                   (\<lambda>key. case map_of ps key of
                             Some (JArr xs) \<Rightarrow> extractPlainText (JArr xs) (depth + 1)
                           | Some (JObj qs) \<Rightarrow> extractPlainText (JObj qs) (depth + 1)
                           | _ \<Rightarrow> [])
                   textKeys in
             if inKeys \<noteq> [] then inKeys
             else firstText
                    (\<lambda>key. case map_of ps key of
                              Some nested \<Rightarrow> extractPlainText nested (depth + 1)
                            | None \<Rightarrow> [])
                    (map fst ps))
      | _ \<Rightarrow> [])"
  by pat_completeness auto
termination
  by (relation "measure (\<lambda>(value, depth). 6 - depth)") auto

declare extractPlainText.simps [simp del]

text \<open>Decimal text of a number (\<open>String(n)\<close> and \<open>JSON.stringify(n)\<close> on an integer).\<close>

fun natToString :: "nat \<Rightarrow> string" where
  "natToString n =
     (if n < 10 then [char_of (48 + n)] else natToString (n div 10) @ [char_of (48 + n mod 10)])"

declare natToString.simps [simp del]

definition intToString :: "int \<Rightarrow> string" where
  "intToString i = (if i < 0 then CHR ''-'' # natToString (nat (- i)) else natToString (nat i))"

fun joinWith :: "string \<Rightarrow> string list \<Rightarrow> string" where
  "joinWith sep [] = []"
| "joinWith sep [x] = x"
| "joinWith sep (x # y # ys) = x @ sep @ joinWith sep (y # ys)"

text \<open>\<open>String(value)\<close>: an array joins the texts of its elements with commas, \<open>null\<close>
  elements giving nothing; a plain object is \<open>[object Object]\<close>.\<close>

fun toStringJS :: "js \<Rightarrow> string" where
  "toStringJS JNull = ''null''"
| "toStringJS (JBool b) = (if b then ''true'' else ''false'')"
| "toStringJS (JNum n) = intToString n"
| "toStringJS (JStr s) = s"
| "toStringJS (JArr xs) = joinWith '','' (map (\<lambda>x. if x = JNull then [] else toStringJS x) xs)"
| "toStringJS (JObj ps) = ''[object Object]''"

text \<open>\<open>value.k1 || value.k2 || ... || final\<close>: the first truthy property, else the final
  operand.\<close>

fun firstTruthyProp :: "js \<Rightarrow> string list \<Rightarrow> js \<Rightarrow> js" where
  "firstTruthyProp value [] final = final"
| "firstTruthyProp value (key # keys) final =
     (case getProp value key of
        Some v \<Rightarrow> if truthy v then v else firstTruthyProp value keys final
      | None \<Rightarrow> firstTruthyProp value keys final)"

definition standardPayload :: "string \<Rightarrow> string \<Rightarrow> string \<Rightarrow> string \<Rightarrow> js" where
  "standardPayload name category description funFact =
     JObj [(''name'', JStr name), (''category'', JStr category),
           (''description'', JStr description), (''fun_fact'', JStr funFact)]"

text \<open>\<open>normalizeStandardPayload(value)\<close>.\<close>

definition normalizeStandardPayload :: "js \<Rightarrow> js" where
  "normalizeStandardPayload value =
     (if \<not> truthy value \<or> \<not> (case value of JObj ps \<Rightarrow> True | JArr xs \<Rightarrow> True | _ \<Rightarrow> False) then JNull
      else
        let name = firstTruthyProp value [''name'', ''object'', ''item'', ''title''] (JStr []);
            category = firstTruthyProp value [''category'', ''type''] (JStr []);
            description = firstTruthyProp value [''description'', ''summary'', ''details'', ''reason'']
                            (case getProp value ''result'' of Some (JStr r) \<Rightarrow> JStr r | _ \<Rightarrow> JStr []);
            funFact = firstTruthyProp value [''fun_fact'', ''fact'', ''trivia''] (JStr [])
        in
          if truthy name \<or> truthy category \<or> truthy description \<or> truthy funFact
          then standardPayload
                 (toStringJS (if truthy name then name else JStr ''Unknown''))
                 (toStringJS (if truthy category then category else JStr []))
                 (toStringJS (if truthy description then description else JStr []))
                 (toStringJS (if truthy funFact then funFact else JStr []))
          else JNull)"

text \<open>\<open>buildFallbackStandardPayload(rawText)\<close>, called with a string.\<close>

definition buildFallbackStandardPayload :: "host \<Rightarrow> string \<Rightarrow> js" where
  "buildFallbackStandardPayload h rawText =
     (let text = trim rawText in
      if text = [] then JNull
      else
        let parsed = tryParseJSON h (JStr text);
            normalized = normalizeStandardPayload parsed
        in if truthy normalized then normalized
           else standardPayload ''Unknown'' [] text [])"

text \<open>
  \<open>JSON.stringify(value)\<close> on the values above. A string is quoted; the quote, the
  backslash and the control characters are escaped.
\<close>

definition hexDigit :: "nat \<Rightarrow> char" where
  "hexDigit n = (if n < 10 then char_of (48 + n) else char_of (87 + n))"

definition quoteChar :: "char \<Rightarrow> string" where
  "quoteChar c =
     (let n = (of_char c :: nat) in
      if n = 8 then [CHR 0x5C, CHR ''b'']
      else if n = 9 then [CHR 0x5C, CHR ''t'']
      else if n = 10 then [CHR 0x5C, CHR ''n'']
      else if n = 12 then [CHR 0x5C, CHR ''f'']
      else if n = 13 then [CHR 0x5C, CHR ''r'']
      else if n = 34 then [CHR 0x5C, CHR 0x22]
      else if n = 92 then [CHR 0x5C, CHR 0x5C]
      else if n < 32 then [CHR 0x5C, CHR ''u'', CHR ''0'', CHR ''0'', hexDigit (n div 16), hexDigit (n mod 16)]
      else [c])"

definition quoteJSON :: "string \<Rightarrow> string" where
  "quoteJSON s = CHR 0x22 # concat (map quoteChar s) @ [CHR 0x22]"

fun JSON_stringify :: "js \<Rightarrow> string"
  and stringifyElements :: "js list \<Rightarrow> string list"
  and stringifyMembers :: "(string \<times> js) list \<Rightarrow> string list" where
  "JSON_stringify JNull = ''null''"
| "JSON_stringify (JBool b) = (if b then ''true'' else ''false'')"
| "JSON_stringify (JNum n) = intToString n"
| "JSON_stringify (JStr s) = quoteJSON s"
| "JSON_stringify (JArr xs) = ''['' @ joinWith '','' (stringifyElements xs) @ '']''"
| "JSON_stringify (JObj ps) = ''{'' @ joinWith '','' (stringifyMembers ps) @ ''}''"
| "stringifyElements [] = []"
| "stringifyElements (x # xs) = JSON_stringify x # stringifyElements xs"
| "stringifyMembers [] = []"
| "stringifyMembers ((key, v) # ps) = (quoteJSON key @ '':'' @ JSON_stringify v) # stringifyMembers ps"

text \<open>\<open>getAnyTextFallback(data, preferred)\<close>. \<open>JSON.stringify\<close> does not throw on
  these values, and its text is never empty.\<close>

definition getAnyTextFallback :: "js \<Rightarrow> string \<Rightarrow> string" where
  "getAnyTextFallback data preferred =
     (if preferred \<noteq> [] \<and> trim preferred \<noteq> [] then trim preferred
      else if (case data of JStr d \<Rightarrow> trim d \<noteq> [] | _ \<Rightarrow> False)
           then (case data of JStr d \<Rightarrow> trim d | _ \<Rightarrow> [])
      else
        let compact = JSON_stringify data in
        if compact \<noteq> [] \<and> compact \<noteq> ''{}'' \<and> compact \<noteq> ''[]'' then compact else [])"

section \<open>State of the page\<close>

datatype STATES = CAMERA | ANALYZING | RESULT | SETTINGS | HD_CAMERA | HD_ANALYZING | HD_RESULT

datatype request_mode = Standard | Hotdog

text \<open>
  The active request. Its identifier, start time and prompt length come from the clock,
  the random generator and the prompt text; they are only written to the debug log and
  are left out, as is the debug log itself.
\<close>

record request =
  mode :: request_mode
  imageLen :: nat
  voiceToggle :: bool
  wantsR1Response :: bool

record settings =
  voice :: bool
  hotdog :: bool

text \<open>
  The texts of the error toast:
  \<^item> \<open>Camera_not_available\<close>: "Camera not available";
  \<^item> \<open>Request_failed\<close>: "Request failed - try again";
  \<^item> \<open>Still_waiting\<close>: "Still waiting for response...";
  \<^item> \<open>Could_not_read\<close>: "Could not read response - try again";
  \<^item> \<open>Camera_not_ready\<close>: "Camera not ready - try again".
\<close>

datatype notice =
  Camera_not_available | Request_failed | Still_waiting | Could_not_read | Camera_not_ready

record toast =
  toastText :: "notice option"
  toastShown :: bool

datatype screen = S_camera | S_analyzing | S_result | S_settings | S_hdResult | S_hdAnalyzing

datatype icon = Icon_hot_dog | Icon_prohibited

text \<open>
  The globals of the script (\<open>state\<close> to \<open>settings\<close>), the item the key-value store
  holds under \<open>STORAGE_KEY\<close> (\<open>stored\<close>), and the parts of the document the script
  writes: the error toast (\<open>None\<close> until \<open>addErrorToast\<close> has created the element), the
  screens that carry the class \<open>active\<close>, whether the hot-dog overlay is hidden, the
  last colour given to \<open>updateAppBorderColor\<close>, the texts of the two result screens, and
  the settings toggles. A timer variable holds \<open>None\<close> for \<open>null\<close> and the delay of the
  timeout it was last set to otherwise.
\<close>

record app =
  state :: STATES
  resultPage :: nat
  creditClicks :: nat
  errorTimer :: "nat option"
  llmTimer :: "nat option"
  activeRequest :: "request option"
  settings :: settings
  stored :: "string option"
  toast :: "toast option"
  activeScreens :: "screen list"
  hdOverlayHidden :: bool
  borderColor :: "string option"
  resultCategory :: string
  resultCategoryShown :: bool
  resultName :: string
  resultDescription :: string
  resultFact :: string
  hdIcon :: "icon option"
  hdVerdict :: string
  hdReason :: string
  toggleVoiceOn :: bool
  toggleHotdogOn :: bool
  hotdogRowHidden :: bool

definition RESPONSE_TIMEOUT_MS :: nat where
  "RESPONSE_TIMEOUT_MS = 20000"

text \<open>
  The page as the script finds it when it is loaded, over a key-value store that holds
  \<open>item\<close>: the globals as the script initialises them, and the document as its
  markup is taken to start (the camera screen active, the overlay hidden, the result
  texts empty, the toggles off, the hot-dog row hidden).
\<close>

definition initialApp :: "string option \<Rightarrow> app" where
  "initialApp item =
     \<lparr>state = CAMERA, resultPage = 1, creditClicks = 0, errorTimer = None, llmTimer = None,
      activeRequest = None, settings = \<lparr>voice = False, hotdog = False\<rparr>, stored = item,
      toast = None, activeScreens = [S_camera], hdOverlayHidden = True, borderColor = None,
      resultCategory = [], resultCategoryShown = False, resultName = [],
      resultDescription = [], resultFact = [], hdIcon = None, hdVerdict = [], hdReason = [],
      toggleVoiceOn = False, toggleHotdogOn = False, hotdogRowHidden = True\<rparr>"

section \<open>State machine\<close>

definition screenOf :: "STATES \<Rightarrow> screen list" where
  "screenOf newState =
     (case newState of
        CAMERA \<Rightarrow> [S_camera]
      | ANALYZING \<Rightarrow> [S_analyzing]
      | RESULT \<Rightarrow> [S_result]
      | SETTINGS \<Rightarrow> [S_settings]
      | HD_CAMERA \<Rightarrow> []
      | HD_ANALYZING \<Rightarrow> [S_hdAnalyzing]
      | HD_RESULT \<Rightarrow> [S_hdResult])"

text \<open>
  \<open>setState(newState)\<close>: the new state is stored; the watchdog timer is cleared unless
  the new state is an analyzing one; every screen is deactivated and the overlay hidden;
  the border colour is reset unless the new state is the hot-dog result; the screen of
  the new state is activated (for \<open>hd-camera\<close> the overlay is shown instead).
\<close>

definition setState :: "host \<Rightarrow> STATES \<Rightarrow> app \<Rightarrow> app" where
  "setState h newState s =
     s\<lparr>state := newState,
       llmTimer := (if newState \<noteq> ANALYZING \<and> newState \<noteq> HD_ANALYZING then None else llmTimer s),
       activeScreens := screenOf newState,
       hdOverlayHidden := (newState \<noteq> HD_CAMERA),
       borderColor := (if newState \<noteq> HD_RESULT \<and> hasBorderColor h then Some ''#000000''
                       else borderColor s)\<rparr>"

text \<open>\<open>addErrorToast()\<close> and \<open>showError(msg)\<close>; the latter does nothing while the
  toast element does not exist, and otherwise restarts the 3000 ms timer that hides it.\<close>

definition addErrorToast :: "app \<Rightarrow> app" where
  "addErrorToast s = s\<lparr>toast := Some \<lparr>toastText = None, toastShown = False\<rparr>\<rparr>"

definition showError :: "notice \<Rightarrow> app \<Rightarrow> app" where
  "showError msg s =
     (case toast s of
        None \<Rightarrow> s
      | Some t \<Rightarrow> s\<lparr>toast := Some \<lparr>toastText = Some msg, toastShown = True\<rparr>,
                     errorTimer := Some 3000\<rparr>)"

definition beginRequest :: "string \<Rightarrow> app \<Rightarrow> app" where
  "beginRequest imageBase64 s =
     s\<lparr>activeRequest := Some
         \<lparr>mode = (if state s = HD_ANALYZING then Hotdog else Standard),
          imageLen = length imageBase64,
          voiceToggle = voice (settings s),
          wantsR1Response = False\<rparr>\<rparr>"

definition endRequest :: "app \<Rightarrow> app" where
  "endRequest s = s\<lparr>activeRequest := None\<rparr>"

text \<open>\<open>captureFrame()\<close>: \<open>null\<close> while the video has no decoded width.\<close>

definition captureFrame :: "host \<Rightarrow> string option" where
  "captureFrame h = (if videoWidth h = 0 then None else Some (frame h))"

text \<open>
  \<open>sendToLLM(imageBase64, prompt)\<close>. In dev mode the request is begun and a mock
  response is scheduled; it arrives later through \<open>handleLLMResponse\<close>, and no watchdog
  is armed. Otherwise the message is posted: when the post throws, the request is ended,
  the error shown and the camera state restored; when it returns, the watchdog is armed.
  The prompt only enters the posted message and the debug log.
\<close>

definition sendToLLM :: "host \<Rightarrow> string \<Rightarrow> app \<Rightarrow> app" where
  "sendToLLM h imageBase64 s =
     (let s1 = beginRequest imageBase64 s in
      case pluginHandler h of
        None \<Rightarrow> s1
      | Some posted \<Rightarrow>
          if \<not> posted then
            (let s2 = showError Request_failed (endRequest s1)
             in setState h (if state s2 = HD_ANALYZING then HD_CAMERA else CAMERA) s2)
          else s1\<lparr>llmTimer := Some RESPONSE_TIMEOUT_MS\<rparr>)"

text \<open>The callback of the watchdog timer.\<close>

definition llmWatchdog :: "app \<Rightarrow> app" where
  "llmWatchdog s =
     (if state s = ANALYZING \<or> state s = HD_ANALYZING then showError Still_waiting s else s)"

definition showResultPage :: "nat \<Rightarrow> app \<Rightarrow> app" where
  "showResultPage page s = s\<lparr>resultPage := page\<rparr>"

text \<open>\<open>a || b\<close> for a property and a literal text.\<close>

definition propOr :: "js \<Rightarrow> string \<Rightarrow> string \<Rightarrow> js" where
  "propOr value key dflt =
     (case getProp value key of Some v \<Rightarrow> if truthy v then v else JStr dflt | None \<Rightarrow> JStr dflt)"

text \<open>\<open>showResult(parsed)\<close>; a text node holds the string of what is assigned to it.\<close>

definition showResult :: "host \<Rightarrow> js \<Rightarrow> app \<Rightarrow> app" where
  "showResult h parsed s =
     (let name = propOr parsed ''name'' ''Unknown'';
          category = propOr parsed ''category'' [];
          desc = propOr parsed ''description'' [];
          funFact = propOr parsed ''fun_fact'' [];
          s1 = s\<lparr>resultCategory := toStringJS category,
                 resultName := toStringJS name,
                 resultDescription := toStringJS desc,
                 resultFact := toStringJS funFact,
                 resultCategoryShown := truthy category\<rparr>;
          s2 = showResultPage 1 (s1\<lparr>resultPage := 1\<rparr>)
      in setState h RESULT s2)"

text \<open>\<open>showHotdogResult(parsed)\<close>. \<open>(parsed.result || '').toUpperCase()\<close> throws a
  TypeError when the result is truthy and not a string: \<open>None\<close>.\<close>

definition showHotdogResult :: "host \<Rightarrow> js \<Rightarrow> app \<Rightarrow> app option" where
  "showHotdogResult h parsed s =
     (case propOr parsed ''result'' [] of
        JStr r \<Rightarrow>
          (let isHotDog = (includes_str (toUpperCase r) ''HOT DOG'' \<and>
                           \<not> includes_str (toUpperCase r) ''NOT HOT DOG'');
               s1 = s\<lparr>hdIcon := Some (if isHotDog then Icon_hot_dog else Icon_prohibited),
                      hdVerdict := (if isHotDog then ''HOT DOG'' else ''NOT HOT DOG''),
                      hdReason := toStringJS (propOr parsed ''reason'' []),
                      borderColor := (if hasBorderColor h
                                      then Some (if isHotDog then ''#22c55e'' else ''#ef4444'')
                                      else borderColor s)\<rparr>
           in Some (setState h HD_RESULT s1))
      | _ \<Rightarrow> None)"

section \<open>Handling a response\<close>

definition hotdogPayload :: "string \<Rightarrow> string \<Rightarrow> js" where
  "hotdogPayload result reason = JObj [(''result'', JStr result), (''reason'', JStr reason)]"

text \<open>The locals \<open>parsedData\<close>, \<open>fallbackText\<close>, \<open>waitingForResponse\<close> and
  \<open>isHotdogFlow\<close> of \<open>handleLLMResponse\<close>, and the first value of \<open>parsed\<close>.\<close>

definition parsedDataOf :: "js \<Rightarrow> js" where
  "parsedDataOf data =
     (case data of
        JObj ps \<Rightarrow> (case map_of ps ''parsedData'' of Some v \<Rightarrow> v | None \<Rightarrow> JNull)
      | _ \<Rightarrow> JNull)"

definition structuredOf :: "host \<Rightarrow> js \<Rightarrow> js" where
  "structuredOf h data =
     (let parsedData = parsedDataOf data in
      if parsedData \<noteq> JNull then extractResultPayload h parsedData 0
      else extractResultPayload h data 0)"

definition fallbackTextOf :: "js \<Rightarrow> string" where
  "fallbackTextOf data =
     (let parsedData = parsedDataOf data;
          first = extractPlainText (if parsedData \<noteq> JNull then parsedData else data) 0
      in if first \<noteq> [] then first else extractPlainText data 0)"

definition waitingForResponse :: "app \<Rightarrow> bool" where
  "waitingForResponse s = (state s = ANALYZING \<or> state s = HD_ANALYZING)"

definition isHotdogFlow :: "app \<Rightarrow> bool" where
  "isHotdogFlow s =
     (state s = HD_ANALYZING \<or>
      (case activeRequest s of Some r \<Rightarrow> mode r = Hotdog | None \<Rightarrow> False))"

text \<open>
  \<open>handleLLMResponse(data)\<close>. The result is \<open>None\<close> when the function throws, and the
  state it leaves otherwise; the three early returns are the branches that give back a
  state without reaching \<open>showResult\<close> or \<open>showHotdogResult\<close>.
\<close>

definition handleLLMResponse :: "host \<Rightarrow> js \<Rightarrow> app \<Rightarrow> app option" where
  "handleLLMResponse h data s =
     (if \<not> waitingForResponse s \<and> activeRequest s = None then Some s
      else
        let parsed0 = structuredOf h data;
            fallbackText = fallbackTextOf data;
            hot = isHotdogFlow s;
            parsed1 =
              (if \<not> truthy parsed0 \<and> hot then
                 (let upper = toUpperCase fallbackText in
                  if includes_str upper ''HOT DOG''
                  then hotdogPayload
                         (if includes_str upper ''NOT HOT DOG'' then ''NOT HOT DOG'' else ''HOT DOG'')
                         (if length fallbackText \<le> 200 then fallbackText else ''Unable to classify.'')
                  else parsed0)
               else parsed0);
            parsed2 =
              (if \<not> truthy parsed1 \<and> \<not> hot
               then buildFallbackStandardPayload h (getAnyTextFallback data fallbackText)
               else parsed1);
            parsed3 =
              (if \<not> truthy parsed2 then
                 (let emergencyText = getAnyTextFallback data fallbackText in
                  if \<not> hot \<and> emergencyText \<noteq> []
                  then Some (standardPayload ''Unknown'' [] emergencyText [])
                  else None)
               else Some parsed2)
        in
          case parsed3 of
            None \<Rightarrow> Some s
          | Some parsed \<Rightarrow>
              (let s1 = s\<lparr>llmTimer := None\<rparr>;
                   parsed4 =
                     (if \<not> hot \<and> \<not> isStringProp parsed ''result'' then
                        (let normalized = normalizeStandardPayload parsed in
                         if truthy normalized then normalized
                         else buildFallbackStandardPayload h (getAnyTextFallback data fallbackText))
                      else parsed)
               in
                 if \<not> truthy parsed4
                 then Some (setState h CAMERA (showError Could_not_read (endRequest s1)))
                 else if hot then
                   (let parsed5 =
                          (if \<not> isStringProp parsed4 ''result'' then
                             (let maybeText = getAnyTextFallback data fallbackText in
                              hotdogPayload
                                (if includes_str (toUpperCase maybeText) ''NOT HOT DOG''
                                 then ''NOT HOT DOG'' else ''HOT DOG'')
                                (if maybeText \<noteq> [] then maybeText else ''Unable to classify.''))
                           else parsed4)
                    in showHotdogResult h parsed5 (endRequest s1))
                 else Some (showResult h parsed4 (endRequest s1))))"

section \<open>Capture and hardware events\<close>

text \<open>\<open>doCapture()\<close>; an empty data URL counts as no frame (\<open>!imageBase64\<close>).\<close>

definition doCapture :: "host \<Rightarrow> app \<Rightarrow> app" where
  "doCapture h s =
     (let isHotdog = (state s = HD_CAMERA);
          s1 = setState h (if isHotdog then HD_ANALYZING else ANALYZING) s
      in case captureFrame h of
           None \<Rightarrow> setState h (if isHotdog then HD_CAMERA else CAMERA) (showError Camera_not_ready s1)
         | Some imageBase64 \<Rightarrow>
             if imageBase64 = []
             then setState h (if isHotdog then HD_CAMERA else CAMERA) (showError Camera_not_ready s1)
             else sendToLLM h imageBase64 s1)"

definition returnToCamera :: "host \<Rightarrow> app \<Rightarrow> app" where
  "returnToCamera h s = setState h (if hotdog (settings s) then HD_CAMERA else CAMERA) s"

definition closeSettings :: "host \<Rightarrow> app \<Rightarrow> app" where
  "closeSettings h s = setState h (if hotdog (settings s) then HD_CAMERA else CAMERA) s"

definition onSideClick :: "host \<Rightarrow> app \<Rightarrow> app" where
  "onSideClick h s =
     (case state s of
        CAMERA \<Rightarrow> doCapture h s
      | HD_CAMERA \<Rightarrow> doCapture h s
      | RESULT \<Rightarrow> returnToCamera h s
      | HD_RESULT \<Rightarrow> setState h HD_CAMERA s
      | SETTINGS \<Rightarrow> closeSettings h s
      | _ \<Rightarrow> s)"

definition onLongPress :: "host \<Rightarrow> app \<Rightarrow> app" where
  "onLongPress h s =
     (case state s of
        RESULT \<Rightarrow> returnToCamera h s
      | HD_RESULT \<Rightarrow> returnToCamera h s
      | SETTINGS \<Rightarrow> closeSettings h s
      | _ \<Rightarrow> s)"

definition onScrollUp :: "app \<Rightarrow> app" where
  "onScrollUp s =
     (case state s of
        RESULT \<Rightarrow> if resultPage s = 2 then showResultPage 1 s else s
      | _ \<Rightarrow> s)"

definition onScrollDown :: "host \<Rightarrow> app \<Rightarrow> app" where
  "onScrollDown h s =
     (case state s of
        RESULT \<Rightarrow>
          if resultPage s = 1 then showResultPage 2 s
          else if resultPage s = 2 then returnToCamera h s
          else s
      | _ \<Rightarrow> s)"

text \<open>The buttons \<open>btn-settings\<close> and \<open>btn-hd-settings\<close>, and the back buttons
  \<open>btn-back-desc\<close> and \<open>btn-back-fact\<close> of the result screen.\<close>

definition onSettingsButton :: "host \<Rightarrow> app \<Rightarrow> app" where
  "onSettingsButton h s = setState h SETTINGS s"

definition onBackButton :: "host \<Rightarrow> app \<Rightarrow> app" where
  "onBackButton h s = returnToCamera h s"

section \<open>Settings and storage\<close>

text \<open>
  \<open>btoa\<close> and \<open>atob\<close>: base64 over 8-bit characters. \<open>atob\<close> drops ASCII white space,
  accepts one or two padding characters at the end of a text whose length is a multiple
  of four, and throws (\<open>None\<close>) on a length that leaves one character over or on a
  character outside the alphabet.
\<close>

definition b64Alphabet :: string where
  "b64Alphabet = ''ABCDEFGHIJKLMNOPQRSTUVWXYZabcdefghijklmnopqrstuvwxyz0123456789+/''"

definition b64Char :: "nat \<Rightarrow> char" where
  "b64Char n = b64Alphabet ! (n mod 64)"

fun encodeBytes :: "nat list \<Rightarrow> string" where
  "encodeBytes [] = []"
| "encodeBytes [a] = [b64Char (a div 4), b64Char ((a mod 4) * 16), CHR ''='', CHR ''='']"
| "encodeBytes [a, b] =
     [b64Char (a div 4), b64Char ((a mod 4) * 16 + b div 16), b64Char ((b mod 16) * 4), CHR ''='']"
| "encodeBytes (a # b # c # rest) =
     [b64Char (a div 4), b64Char ((a mod 4) * 16 + b div 16),
      b64Char ((b mod 16) * 4 + c div 64), b64Char (c mod 64)] @ encodeBytes rest"

definition btoa :: "string \<Rightarrow> string" where
  "btoa s = encodeBytes (map of_char s)"

fun decodeSextets :: "nat list \<Rightarrow> nat list" where
  "decodeSextets (a # b # c # d # rest) =
     [a * 4 + b div 16, (b mod 16) * 16 + c div 4, (c mod 4) * 64 + d] @ decodeSextets rest"
| "decodeSextets [a, b, c] = [a * 4 + b div 16, (b mod 16) * 16 + c div 4]"
| "decodeSextets [a, b] = [a * 4 + b div 16]"
| "decodeSextets rest = []"

definition isBase64Space :: "char \<Rightarrow> bool" where
  "isBase64Space c = (let n = (of_char c :: nat) in n = 9 \<or> n = 10 \<or> n = 12 \<or> n = 13 \<or> n = 32)"

definition stripPadding :: "string \<Rightarrow> string" where
  "stripPadding s =
     (if length s mod 4 = 0 \<and> suffix ''=='' s then take (length s - 2) s
      else if length s mod 4 = 0 \<and> suffix ''='' s then take (length s - 1) s
      else s)"

definition atob :: "string \<Rightarrow> string option" where
  "atob s =
     (let body = stripPadding (filter (\<lambda>c. \<not> isBase64Space c) s) in
      if length body mod 4 = 1 then None
      else if list_ex (\<lambda>c. indexOf b64Alphabet c = None) body then None
      else Some (map char_of (decodeSextets (map (\<lambda>c. the (indexOf b64Alphabet c)) body))))"

text \<open>\<open>!!saved.key\<close>.\<close>

definition truthyProp :: "js \<Rightarrow> string \<Rightarrow> bool" where
  "truthyProp value key = (case getProp value key of Some v \<Rightarrow> truthy v | None \<Rightarrow> False)"

definition settingsObject :: "settings \<Rightarrow> js" where
  "settingsObject st = JObj [(''voice'', JBool (voice st)), (''hotdog'', JBool (hotdog st))]"

definition updateToggles :: "app \<Rightarrow> app" where
  "updateToggles s =
     s\<lparr>toggleVoiceOn := voice (settings s), toggleHotdogOn := hotdog (settings s)\<rparr>"

text \<open>
  \<open>loadSettings()\<close>. Inside the \<open>try\<close>, \<open>atob\<close>, \<open>JSON.parse\<close> and the read of a
  property of \<open>null\<close> may throw; the \<open>catch\<close> leaves the settings as they are. The
  toggles are then set from the settings, and the hot-dog row is shown when the mode is
  on.
\<close>

definition loadSettings :: "host \<Rightarrow> app \<Rightarrow> app" where
  "loadSettings h s =
     (let s1 =
            (if hasStorage h then
               (case stored s of
                  None \<Rightarrow> s
                | Some raw \<Rightarrow>
                    if raw = [] then s
                    else (case atob raw of
                            None \<Rightarrow> s
                          | Some decoded \<Rightarrow>
                              (case JSON_parse h decoded of
                                 None \<Rightarrow> s
                               | Some saved \<Rightarrow>
                                   if saved = JNull then s
                                   else s\<lparr>settings :=
                                            \<lparr>voice = truthyProp saved ''voice'',
                                             hotdog = truthyProp saved ''hotdog''\<rparr>\<rparr>)))
             else s);
          s2 = updateToggles s1
      in if hotdog (settings s2) then s2\<lparr>hotdogRowHidden := False\<rparr> else s2)"

definition saveSettings :: "host \<Rightarrow> app \<Rightarrow> app" where
  "saveSettings h s =
     (if hasStorage h
      then s\<lparr>stored := Some (btoa (JSON_stringify (settingsObject (settings s))))\<rparr>
      else s)"

text \<open>The two toggles of the settings screen, and the credit line that unlocks the
  hot-dog row at the third tap.\<close>

definition onToggleVoice :: "host \<Rightarrow> app \<Rightarrow> app" where
  "onToggleVoice h s =
     (let v = \<not> voice (settings s)
      in saveSettings h (s\<lparr>settings := (settings s)\<lparr>voice := v\<rparr>, toggleVoiceOn := v\<rparr>))"

definition onToggleHotdog :: "host \<Rightarrow> app \<Rightarrow> app" where
  "onToggleHotdog h s =
     (let v = \<not> hotdog (settings s)
      in saveSettings h (s\<lparr>settings := (settings s)\<lparr>hotdog := v\<rparr>, toggleHotdogOn := v\<rparr>))"

definition onCredit :: "app \<Rightarrow> app" where
  "onCredit s =
     (let n = creditClicks s + 1 in
      if n \<ge> 3 then s\<lparr>creditClicks := 0, hotdogRowHidden := False\<rparr> else s\<lparr>creditClicks := n\<rparr>)"

text \<open>The handler of \<open>DOMContentLoaded\<close>, as far as the state above goes: the settings
  are loaded and the toast element is added. A restart of the process runs it again over
  what the store holds.\<close>

definition startup :: "host \<Rightarrow> string option \<Rightarrow> app" where
  "startup h item = addErrorToast (loadSettings h (initialApp item))"

definition restart :: "host \<Rightarrow> app \<Rightarrow> app" where
  "restart h s = startup h (stored s)"

section \<open>Content moderation filter\<close>

text \<open>
  \<open>ProfanityFilter\<close> of the ideas board. Its two tables of pattern sources
  (\<open>BLOCKED\<close>, \<open>BLOCKED_EXACT\<close>) and the regular-expression engine are parameters:
  \<open>regexTest cfg source subject\<close> is \<open>new RegExp(source, 'i').test(subject)\<close>, for
  sources that are valid expressions, as the ones made from the tables of the script
  are. What follows holds for every such table and every engine.
\<close>

record filter_config =
  BLOCKED :: "string list"
  BLOCKED_EXACT :: "string list"
  regexTest :: "string \<Rightarrow> string \<Rightarrow> bool"

record check_result =
  clean :: bool
  reason :: "string option"

definition isSpacer :: "char \<Rightarrow> bool" where
  "isSpacer c = (isSpace c \<or> c = CHR ''_'' \<or> c = CHR ''-'' \<or> c = CHR ''.'' \<or> c = CHR ''*'')"

definition unleet :: "char \<Rightarrow> char" where
  "unleet c =
     (if c = CHR ''0'' then CHR ''o''
      else if c = CHR ''1'' then CHR ''i''
      else if c = CHR ''3'' then CHR ''e''
      else if c = CHR ''4'' then CHR ''a''
      else if c = CHR ''5'' then CHR ''s''
      else if c = CHR ''7'' then CHR ''t''
      else if c = CHR ''@'' then CHR ''a''
      else if c = CHR ''$'' then CHR ''s''
      else if c = CHR ''!'' then CHR ''i''
      else if c = CHR ''|'' then CHR ''l''
      else c)"

text \<open>\<open>normalize(text)\<close>: the spacers are removed, then the look-alike characters are
  replaced, one replacement after the other; no replacement produces a character that
  a later one replaces.\<close>

definition normalize_text :: "string \<Rightarrow> string" where
  "normalize_text s = map unleet (filter (\<lambda>c. \<not> isSpacer c) s)"

definition isLineTerminator :: "char \<Rightarrow> bool" where
  "isLineTerminator c = (c = CHR 0x0A \<or> c = CHR 0x0D)"

text \<open>The shortest run \<open>.*?\<close> up to the first \<open>close\<close>: the characters before it and
  the text after it, or \<open>None\<close> when a line terminator or the end comes first.\<close>

fun upTo :: "char \<Rightarrow> string \<Rightarrow> (string \<times> string) option" where
  "upTo close [] = None"
| "upTo close (c # cs) =
     (if c = close then Some ([], cs)
      else if isLineTerminator c then None
      else map_option (\<lambda>(inner, rest). (c # inner, rest)) (upTo close cs))"

text \<open>\<open>.replace(/\[.*?\]/g, m => m[1])\<close> and \<open>.replace(/\{.*?\}/g, '+')\<close>: every
  bracketed run, from the left, is replaced by what \<open>f\<close> makes of it.\<close>

function replaceRuns :: "char \<Rightarrow> char \<Rightarrow> (string \<Rightarrow> string) \<Rightarrow> string \<Rightarrow> string" where
  "replaceRuns opener closer f [] = []"
| "replaceRuns opener closer f (c # cs) =
     (if c = opener then
        (case upTo closer cs of
           Some (inner, rest) \<Rightarrow> f (c # inner @ [closer]) @ replaceRuns opener closer f rest
         | None \<Rightarrow> c # replaceRuns opener closer f cs)
      else c # replaceRuns opener closer f cs)"
  by pat_completeness auto
termination
proof (relation "measure (\<lambda>(opener, closer, f, s). length s)")
  have shorter: "upTo close cs = Some (inner, rest) \<Longrightarrow> length rest \<le> length cs"
    for close cs inner rest
    by (induction cs arbitrary: inner) (auto split: if_splits)
  fix opener closer :: char and f :: "string \<Rightarrow> string" and c cs x2 x y
  assume "c = opener" "upTo closer cs = Some x2" "(x, y) = x2"
  then show "((opener, closer, f, y), (opener, closer, f, c # cs))
               \<in> measure (\<lambda>(opener, closer, f, s). length s)"
    using shorter [of closer cs x y] by simp
qed auto

text \<open>The simpler pattern \<open>check\<close> derives from a pattern source: a character class
  becomes its first character (\<open>m[1]\<close>, the character after the opening bracket), a
  braced quantifier becomes \<open>+\<close>, and the question marks go.\<close>

definition simplePattern :: "string \<Rightarrow> string" where
  "simplePattern p =
     (let p1 = replaceRuns (CHR ''['') (CHR '']'') (\<lambda>m. [m ! 1]) p;
          p2 = replaceRuns (CHR ''{'') (CHR ''}'') (\<lambda>m. ''+'') p1
      in filter (\<lambda>c. c \<noteq> CHR ''?'') p2)"

definition wordPattern :: "string \<Rightarrow> string" where
  "wordPattern p = [CHR 0x5C, CHR ''b''] @ p @ [CHR 0x5C, CHR ''b'']"

definition offensive :: check_result where
  "offensive = \<lparr>clean = False, reason = Some ''Content contains offensive language.''\<rparr>"

definition inappropriate :: check_result where
  "inappropriate = \<lparr>clean = False, reason = Some ''Content contains inappropriate language.''\<rparr>"

definition allClean :: check_result where
  "allClean = \<lparr>clean = True, reason = None\<rparr>"

text \<open>\<open>check(text)\<close>; \<open>None\<close> is \<open>null\<close> or \<open>undefined\<close>.\<close>

definition check :: "filter_config \<Rightarrow> string option \<Rightarrow> check_result" where
  "check cfg text =
     (case text of
        None \<Rightarrow> allClean
      | Some t \<Rightarrow>
          if t = [] then allClean
          else
            let raw = toLowerCase t;
                normalized = normalize_text raw
            in if list_ex (\<lambda>p. regexTest cfg (wordPattern p) raw) (BLOCKED cfg) then offensive
               else if list_ex (\<lambda>p. regexTest cfg (simplePattern p) normalized) (BLOCKED cfg)
                    then offensive
               else if list_ex (\<lambda>p. regexTest cfg (wordPattern p) raw) (BLOCKED_EXACT cfg)
                    then inappropriate
               else allClean)"

definition checkAll :: "filter_config \<Rightarrow> string option \<Rightarrow> string option \<Rightarrow> check_result" where
  "checkAll cfg title description =
     (let titleCheck = check cfg title in
      if \<not> clean titleCheck then titleCheck
      else
        let descCheck = check cfg description in
        if \<not> clean descCheck then descCheck else allClean)"

section \<open>Nesting of a payload in a value\<close>










section \<open>Events\<close>

text \<open>The callback of the error timer hides the toast.\<close>

definition errorTimeout :: "app \<Rightarrow> app" where
  "errorTimeout s = s\<lparr>toast := map_option (\<lambda>t. t\<lparr>toastShown := False\<rparr>) (toast s)\<rparr>"

text \<open>
  The states the page can be in: it starts with \<open>startup\<close>, and every later change is
  one of the handlers the script binds, run on an event: the hardware events, the
  buttons and toggles, a message from the bridge, the callbacks of the two timers, and
  the error \<open>startCamera\<close> reports when no camera can be opened.
  No handler looks at the state before it runs, other than as written above.
\<close>

inductive reachable :: "host \<Rightarrow> app \<Rightarrow> bool" for h :: host where
  started: "reachable h (startup h item)"
| sideClick: "reachable h s \<Longrightarrow> reachable h (onSideClick h s)"
| longPressEnd: "reachable h s \<Longrightarrow> reachable h (onLongPress h s)"
| scrollUp: "reachable h s \<Longrightarrow> reachable h (onScrollUp s)"
| scrollDown: "reachable h s \<Longrightarrow> reachable h (onScrollDown h s)"
| settingsButton: "reachable h s \<Longrightarrow> reachable h (onSettingsButton h s)"
| closeButton: "reachable h s \<Longrightarrow> reachable h (closeSettings h s)"
| backButton: "reachable h s \<Longrightarrow> reachable h (onBackButton h s)"
| toggleVoice: "reachable h s \<Longrightarrow> reachable h (onToggleVoice h s)"
| toggleHotdog: "reachable h s \<Longrightarrow> reachable h (onToggleHotdog h s)"
| credit: "reachable h s \<Longrightarrow> reachable h (onCredit s)"
| message: "reachable h s \<Longrightarrow> handleLLMResponse h data s = Some s' \<Longrightarrow> reachable h s'"
| watchdog: "reachable h s \<Longrightarrow> reachable h (llmWatchdog s)"
| toastTimeout: "reachable h s \<Longrightarrow> reachable h (errorTimeout s)"
| cameraFailed: "reachable h s \<Longrightarrow> reachable h (showError Camera_not_available s)"

text \<open>A message is taken up while the state is an analyzing one or a request is active.\<close>

definition accepting :: "app \<Rightarrow> bool" where
  "accepting s = (waitingForResponse s \<or> activeRequest s \<noteq> None)"

text \<open>A state with what the toast shows left out, to compare two states in everything
  but the toast.\<close>

definition withoutToast :: "app \<Rightarrow> app" where
  "withoutToast s = s\<lparr>toast := None, errorTimer := None\<rparr>"

section \<open>A host for the examples\<close>

text \<open>
  A reader of JSON text for the values above: objects, arrays, strings with their
  escapes, integers and the three literals. Text whose value lies outside (a fraction, an
  exponent, an escape above code 255) is refused like malformed text. It stands for
  \<open>JSON.parse\<close> in the examples; the fuel is the length of the text, which bounds the
  nesting.
\<close>

definition isJsonSpace :: "char \<Rightarrow> bool" where
  "isJsonSpace c = (c = CHR '' '' \<or> c = CHR 0x09 \<or> c = CHR 0x0A \<or> c = CHR 0x0D)"

definition skipWs :: "string \<Rightarrow> string" where
  "skipWs s = dropWhile isJsonSpace s"

definition digitVal :: "char \<Rightarrow> nat option" where
  "digitVal c = (let n = (of_char c :: nat) in if 48 \<le> n \<and> n \<le> 57 then Some (n - 48) else None)"

definition hexVal :: "char \<Rightarrow> nat option" where
  "hexVal c = (let n = (of_char c :: nat) in
     if 48 \<le> n \<and> n \<le> 57 then Some (n - 48)
     else if 97 \<le> n \<and> n \<le> 102 then Some (n - 87)
     else if 65 \<le> n \<and> n \<le> 70 then Some (n - 55)
     else None)"

fun readDigits :: "nat \<Rightarrow> string \<Rightarrow> nat \<times> string" where
  "readDigits acc [] = (acc, [])"
| "readDigits acc (c # cs) =
     (case digitVal c of Some d \<Rightarrow> readDigits (acc * 10 + d) cs | None \<Rightarrow> (acc, c # cs))"

definition readNumber :: "string \<Rightarrow> (js \<times> string) option" where
  "readNumber s =
     (let (neg, body) = (case s of c # cs \<Rightarrow> if c = CHR ''-'' then (True, cs) else (False, s)
                                 | [] \<Rightarrow> (False, s)) in
      case body of
        [] \<Rightarrow> None
      | c # cs \<Rightarrow>
          (case digitVal c of
             None \<Rightarrow> None
           | Some d \<Rightarrow>
               (let (n, rest) = (if d = 0 then (0, cs) else readDigits 0 body) in
                case rest of
                  r # rs \<Rightarrow>
                    (if r = CHR ''.'' \<or> r = CHR ''e'' \<or> r = CHR ''E'' \<or> digitVal r \<noteq> None
                     then None
                     else Some (JNum (if neg then - int n else int n), rest))
                | [] \<Rightarrow> Some (JNum (if neg then - int n else int n), rest))))"

fun readString :: "string \<Rightarrow> string \<Rightarrow> (string \<times> string) option" where
  "readString acc [] = None"
| "readString acc [c] = (if c = CHR 0x22 then Some (rev acc, []) else None)"
| "readString acc (c # e # cs) =
     (if c = CHR 0x22 then Some (rev acc, e # cs)
      else if c = CHR 0x5C then
        (if e = CHR 0x22 \<or> e = CHR 0x5C \<or> e = CHR ''/'' then readString (e # acc) cs
         else if e = CHR ''b'' then readString (CHR 0x08 # acc) cs
         else if e = CHR ''f'' then readString (CHR 0x0C # acc) cs
         else if e = CHR ''n'' then readString (CHR 0x0A # acc) cs
         else if e = CHR ''r'' then readString (CHR 0x0D # acc) cs
         else if e = CHR ''t'' then readString (CHR 0x09 # acc) cs
         else if e = CHR ''u'' then
           (case cs of
              a # b # c' # d # rest \<Rightarrow>
                (case (hexVal a, hexVal b, hexVal c', hexVal d) of
                   (Some 0, Some 0, Some x, Some y) \<Rightarrow> readString (char_of (x * 16 + y) # acc) rest
                 | _ \<Rightarrow> None)
            | _ \<Rightarrow> None)
         else None)
      else if (of_char c :: nat) < 32 then None
      else readString (c # acc) (e # cs))"

fun readValue :: "nat \<Rightarrow> string \<Rightarrow> (js \<times> string) option"
  and readElements :: "nat \<Rightarrow> js list \<Rightarrow> string \<Rightarrow> (js \<times> string) option"
  and readMembers :: "nat \<Rightarrow> (string \<times> js) list \<Rightarrow> string \<Rightarrow> (js \<times> string) option" where
  "readValue 0 s = None"
| "readValue (Suc fuel) s =
     (case skipWs s of
        [] \<Rightarrow> None
      | c # cs \<Rightarrow>
          if c = CHR ''{'' then
            (case skipWs cs of
               d # ds \<Rightarrow> if d = CHR ''}'' then Some (JObj [], ds) else readMembers fuel [] (d # ds)
             | [] \<Rightarrow> None)
          else if c = CHR ''['' then
            (case skipWs cs of
               d # ds \<Rightarrow> if d = CHR '']'' then Some (JArr [], ds) else readElements fuel [] (d # ds)
             | [] \<Rightarrow> None)
          else if c = CHR 0x22 then map_option (\<lambda>(t, rest). (JStr t, rest)) (readString [] cs)
          else if take 4 (c # cs) = ''true'' then Some (JBool True, drop 4 (c # cs))
          else if take 5 (c # cs) = ''false'' then Some (JBool False, drop 5 (c # cs))
          else if take 4 (c # cs) = ''null'' then Some (JNull, drop 4 (c # cs))
          else readNumber (c # cs))"
| "readElements 0 acc s = None"
| "readElements (Suc fuel) acc s =
     (case readValue fuel s of
        None \<Rightarrow> None
      | Some (v, rest) \<Rightarrow>
          (case skipWs rest of
             c # cs \<Rightarrow>
               if c = CHR '','' then readElements fuel (acc @ [v]) cs
               else if c = CHR '']'' then Some (JArr (acc @ [v]), cs)
               else None
           | [] \<Rightarrow> None))"
| "readMembers 0 acc s = None"
| "readMembers (Suc fuel) acc s =
     (case skipWs s of
        q # cs \<Rightarrow>
          if q = CHR 0x22 then
            (case readString [] cs of
               None \<Rightarrow> None
             | Some (key, rest) \<Rightarrow>
                 (case skipWs rest of
                    c # cs' \<Rightarrow>
                      if c = CHR '':'' then
                        (case readValue fuel cs' of
                           None \<Rightarrow> None
                         | Some (v, rest') \<Rightarrow>
                             (case skipWs rest' of
                                d # ds \<Rightarrow>
                                  if d = CHR '','' then readMembers fuel (AList.update key v acc) ds
                                  else if d = CHR ''}'' then Some (JObj (AList.update key v acc), ds)
                                  else None
                              | [] \<Rightarrow> None))
                      else None
                  | [] \<Rightarrow> None))
          else None
      | [] \<Rightarrow> None)"

definition readJSON :: "string \<Rightarrow> js option" where
  "readJSON s =
     (case readValue (Suc (length s)) s of
        Some (v, rest) \<Rightarrow> if skipWs rest = [] then Some v else None
      | None \<Rightarrow> None)"

text \<open>The device: the plugin handler posts, the video has a frame, the border colour
  and the store are there. \<open>devHost\<close> is the page opened in a browser, without the
  plugin handler; on \<open>brokenHost\<close> the post throws.\<close>

definition sampleHost :: host where
  "sampleHost =
     \<lparr>JSON_parse = readJSON, pluginHandler = Some True, videoWidth = 640,
      frame = ''data:image/jpeg;base64,AAAA'', hasBorderColor = True, hasStorage = True\<rparr>"

definition devHost :: host where
  "devHost = sampleHost\<lparr>pluginHandler := None\<rparr>"

definition brokenHost :: host where
  "brokenHost = sampleHost\<lparr>pluginHandler := Some False\<rparr>"

text \<open>A payload behind five wrappings (an object key, an array, a fenced JSON string,
  and two more keys inside the text), and the same behind six.\<close>

definition mugPayload :: js where
  "mugPayload = JObj [(''name'', JStr ''Mug'')]"






text \<open>Answers in prose that quote an object: one with no result field, one with a
  title.\<close>

definition quotedAnswer :: js where
  \<open>quotedAnswer = JObj [(''answer'', JStr ''see {"foo":1} above'')]\<close>

definition titledAnswer :: js where
  \<open>titledAnswer = JObj [(''answer'', JStr ''Here: {"title":"Mug"}'')]\<close>

text \<open>States of the page on the device: after startup with an empty store; after a
  press of the side button there; after hot-dog mode was switched on in the settings and
  the settings closed; after a press of the side button there.\<close>

definition ready :: app where
  "ready = startup sampleHost None"

definition analyzing :: app where
  "analyzing = onSideClick sampleHost ready"

definition hdReady :: app where
  "hdReady = onSideClick sampleHost (onToggleHotdog sampleHost (onSettingsButton sampleHost ready))"

definition hdAnalyzing :: app where
  "hdAnalyzing = onSideClick sampleHost hdReady"

text \<open>The hot-dog toggle is tapped while the hot-dog request is pending, and the answer
  arrives.\<close>

definition hdResultFlagOff :: app where
  \<open>hdResultFlagOff =
     the (handleLLMResponse sampleHost (JStr ''{"result":"HOT DOG","reason":"It is."}'')
            (onToggleHotdog sampleHost hdAnalyzing))\<close>

definition resultShown :: app where
  "resultShown = showResult sampleHost mugPayload (endRequest analyzing)"

text \<open>Answers of the model.\<close>

definition yesText :: js where
  "yesText = JStr '' Looks like a hot dog to me. ''"

definition noText :: js where
  "noText = JObj [(''message'', JStr ''Verdict: Not Hot Dog. It is a stapler.'')]"

definition longText :: js where
  "longText = JStr (''hot dog'' @ replicate 200 (CHR ''!''))"

definition plainAnswer :: js where
  "plainAnswer = JObj [(''message'', JStr ''  It looks like a mug. '')]"

definition bareNumber :: js where
  "bareNumber = JArr [JNum 42, JBool False]"

definition mugAnswer :: js where
  \<open>mugAnswer = JObj [(''data'', JStr ''{"name":"Mug","category":"Kitchenware","description":"A drinking vessel.","fun_fact":"Ceramic mugs date back millennia."}'')]\<close>

definition staplerAnswer :: js where
  \<open>staplerAnswer = JStr ''{"result":"NOT HOT DOG","reason":"It is a stapler."}''\<close>

text \<open>Stores: after the voice toggle was tapped; holding text that is not base64; holding
  base64 of text that is not JSON.\<close>

definition voiceOn :: app where
  "voiceOn = onToggleVoice sampleHost ready"

definition corruptStore :: app where
  "corruptStore = ready\<lparr>stored := Some ''not base64!''\<rparr>"

definition notJsonStore :: app where
  "notJsonStore = ready\<lparr>stored := Some (btoa ''{voice'')\<rparr>"

text \<open>A filter for the examples: its tables hold plain words, and its engine decides
  the two kinds of source such tables give rise to, a word between two \<open>\b\<close> and a
  word alone, without regard to letter case.\<close>

definition isWordChar :: "char \<Rightarrow> bool" where
  "isWordChar c =
     (let n = (of_char c :: nat) in
      (48 \<le> n \<and> n \<le> 57) \<or> (65 \<le> n \<and> n \<le> 90) \<or> (97 \<le> n \<and> n \<le> 122) \<or> n = 95)"

fun wordSearch :: "string \<Rightarrow> bool \<Rightarrow> string \<Rightarrow> bool" where
  "wordSearch w prev [] = False"
| "wordSearch w prev (c # cs) =
     ((\<not> prev \<and> prefix w (c # cs) \<and>
       (case drop (length w) (c # cs) of [] \<Rightarrow> True | d # ds \<Rightarrow> \<not> isWordChar d)) \<or>
      wordSearch w (isWordChar c) cs)"

definition wordEngine :: "string \<Rightarrow> string \<Rightarrow> bool" where
  "wordEngine source subject =
     (let src = toLowerCase source; sub = toLowerCase subject in
      if take 2 src = [CHR 0x5C, CHR ''b''] \<and> take 2 (rev src) = [CHR ''b'', CHR 0x5C] \<and> 4 \<le> length src
      then wordSearch (take (length src - 4) (drop 2 src)) False sub
      else includes_str sub src)"

definition sampleFilter :: filter_config where
  "sampleFilter = \<lparr>BLOCKED = [''darn''], BLOCKED_EXACT = [''heck''], regexTest = wordEngine\<rparr>"

section \<open>Strings\<close>

lemma includes_str_iff: "includes_str s sub \<longleftrightarrow> (\<exists>a b. s = a @ sub @ b)"
proof (induction s)
  case Nil
  then show ?case by auto
next
  case (Cons c cs)
  show ?case
  proof
    assume "includes_str (c # cs) sub"
    then consider "prefix sub (c # cs)" | "includes_str cs sub" by auto
    then show "\<exists>a b. c # cs = a @ sub @ b"
    proof cases
      case 1
      then obtain b where "c # cs = sub @ b" by (auto simp: prefix_def)
      then have "c # cs = [] @ sub @ b" by simp
      then show ?thesis by blast
    next
      case 2
      with Cons.IH obtain a b where "cs = a @ sub @ b" by blast
      then have "c # cs = (c # a) @ sub @ b" by simp
      then show ?thesis by blast
    qed
  next
    assume "\<exists>a b. c # cs = a @ sub @ b"
    then obtain a b where ab: "c # cs = a @ sub @ b" by blast
    show "includes_str (c # cs) sub"
    proof (cases a)
      case Nil
      with ab have "prefix sub (c # cs)" by (metis append_Nil prefixI)
      then show ?thesis by simp
    next
      case (Cons x xs)
      with ab have "cs = xs @ sub @ b" by simp
      with Cons.IH show ?thesis by auto
    qed
  qed
qed

lemma toUpperCase_append: "toUpperCase (a @ b) = toUpperCase a @ toUpperCase b"
  by (simp add: toUpperCase_def)

lemma upper_NOT_HOT_DOG: "toUpperCase ''NOT HOT DOG'' = ''NOT HOT DOG''"
  by code_simp

lemma includes_upper_NOT_HOT_DOG:
  "includes_str t ''NOT HOT DOG'' \<Longrightarrow> includes_str (toUpperCase t) ''NOT HOT DOG''"
proof -
  assume "includes_str t ''NOT HOT DOG''"
  then obtain a b where "t = a @ ''NOT HOT DOG'' @ b" by (auto simp: includes_str_iff)
  then have "toUpperCase t = toUpperCase a @ ''NOT HOT DOG'' @ toUpperCase b"
    by (simp only: toUpperCase_append upper_NOT_HOT_DOG)
  then show ?thesis unfolding includes_str_iff by blast
qed

lemma includes_HOT_DOG_of_NOT:
  "includes_str t ''NOT HOT DOG'' \<Longrightarrow> includes_str t ''HOT DOG''"
proof -
  assume "includes_str t ''NOT HOT DOG''"
  then obtain a b where "t = a @ ''NOT HOT DOG'' @ b" by (auto simp: includes_str_iff)
  then have "t = (a @ ''NOT '') @ ''HOT DOG'' @ b" by simp
  then show ?thesis unfolding includes_str_iff by blast
qed

lemma isHD_literals:
  "includes_str (toUpperCase ''HOT DOG'') ''HOT DOG''"
  "\<not> includes_str (toUpperCase ''HOT DOG'') ''NOT HOT DOG''"
  "includes_str (toUpperCase ''NOT HOT DOG'') ''NOT HOT DOG''"
  by code_simp+

lemma dropWhile_id: "s = [] \<or> \<not> P (hd s) \<Longrightarrow> dropWhile P s = s"
  by (cases s) auto

lemma trim_id: "s = [] \<or> (\<not> isSpace (hd s) \<and> \<not> isSpace (last s)) \<Longrightarrow> trim s = s"
  by (cases "s = []") (auto simp: trim_def dropWhile_id hd_rev)

lemma dropWhile_hd: "dropWhile P s \<noteq> [] \<Longrightarrow> \<not> P (hd (dropWhile P s))"
  using hd_dropWhile by blast

lemma dropWhile_last: "dropWhile P s \<noteq> [] \<Longrightarrow> last (dropWhile P s) = last s"
  by (induction s) (auto split: if_splits)

lemma trim_ends: "trim s \<noteq> [] \<Longrightarrow> \<not> isSpace (hd (trim s)) \<and> \<not> isSpace (last (trim s))"
proof -
  assume ne: "trim s \<noteq> []"
  let ?a = "dropWhile isSpace s"
  let ?b = "dropWhile isSpace (rev ?a)"
  from ne have b: "?b \<noteq> []" by (simp add: trim_def)
  have a: "?a \<noteq> []"
  proof
    assume e: "?a = []"
    have "?b = []" unfolding e by simp
    with b show False by simp
  qed
  have "last (trim s) = hd ?b" using b by (simp add: trim_def last_rev)
  then have l: "\<not> isSpace (last (trim s))" using dropWhile_hd [OF b] by simp
  have "hd (trim s) = last ?b" using b by (simp add: trim_def hd_rev)
  also have "\<dots> = last (rev ?a)" using dropWhile_last [OF b] .
  also have "\<dots> = hd ?a" using a by (simp add: last_rev)
  finally have "\<not> isSpace (hd (trim s))" using dropWhile_hd [OF a] by simp
  with l show ?thesis by simp
qed

lemma trim_trim [simp]: "trim (trim s) = trim s"
  using trim_ends [of s] trim_id [of "trim s"] by blast

lemma trim_Nil [simp]: "trim [] = []"
  by (simp add: trim_def)

lemma firstText_cases: "firstText f xs = [] \<or> (\<exists>x\<in>set xs. firstText f xs = f x)"
  by (induction xs) (auto simp: Let_def)

lemma firstText_trimmed: "(\<And>x. trim (f x) = f x) \<Longrightarrow> trim (firstText f xs) = firstText f xs"
  by (induction xs) (auto simp: Let_def trim_def)

lemma extractPlainText_trimmed_aux:
  "6 - d \<le> n \<Longrightarrow> trim (extractPlainText v d) = extractPlainText v d"
proof (induction n arbitrary: v d)
  case 0
  then show ?case by (subst (1 2) extractPlainText.simps) simp
next
  case (Suc n)
  show ?case
  proof (cases "d > 5 \<or> v = JNull")
    case True
    then show ?thesis by (subst (1 2) extractPlainText.simps) simp
  next
    case False
    then have ih: "trim (extractPlainText w (d + 1)) = extractPlainText w (d + 1)" for w
      using Suc.prems by (intro Suc.IH) simp
    then have ih': "trim (extractPlainText w (Suc d)) = extractPlainText w (Suc d)" for w
      by simp
    show ?thesis
    proof (cases v)
      case (JStr s)
      then show ?thesis using False by (subst (1 2) extractPlainText.simps) simp
    next
      case (JArr items)
      have "trim (firstText (\<lambda>item. extractPlainText item (d + 1)) items) =
            firstText (\<lambda>item. extractPlainText item (d + 1)) items"
        by (rule firstText_trimmed) (rule ih)
      then show ?thesis using False JArr by (subst (1 2) extractPlainText.simps) simp
    next
      case (JObj ps)
      let ?direct = "firstText (\<lambda>key. case map_of ps key of Some (JStr s) \<Rightarrow> trim s | _ \<Rightarrow> []) textKeys"
      let ?inKeys = "firstText (\<lambda>key. case map_of ps key of
                             Some (JArr xs) \<Rightarrow> extractPlainText (JArr xs) (d + 1)
                           | Some (JObj qs) \<Rightarrow> extractPlainText (JObj qs) (d + 1)
                           | _ \<Rightarrow> []) textKeys"
      let ?walk = "firstText (\<lambda>key. case map_of ps key of
                              Some nested \<Rightarrow> extractPlainText nested (d + 1)
                            | None \<Rightarrow> []) (map fst ps)"
      have d: "trim ?direct = ?direct"
        by (rule firstText_trimmed) (auto split: option.splits js.splits)
      have i: "trim ?inKeys = ?inKeys"
        by (rule firstText_trimmed) (auto simp: ih' split: option.splits js.splits)
      have w: "trim ?walk = ?walk"
        by (rule firstText_trimmed) (auto simp: ih' split: option.splits)
      show ?thesis using False JObj d i w
        by (subst (1 2) extractPlainText.simps) (simp add: Let_def)
    qed (use False in \<open>subst (1 2) extractPlainText.simps, simp\<close>)+
  qed
qed

lemma extractPlainText_trimmed [simp]: "trim (extractPlainText v d) = extractPlainText v d"
  by (rule extractPlainText_trimmed_aux [of d "6 - d"]) simp

lemma fallbackTextOf_trimmed [simp]: "trim (fallbackTextOf data) = fallbackTextOf data"
  by (simp add: fallbackTextOf_def Let_def)

lemma natToString_digits: "natToString n \<noteq> [] \<and> (\<forall>c\<in>set (natToString n). \<not> isSpace c)"
proof (induction n rule: natToString.induct)
  case (1 n)
  have dig: "\<not> isSpace (char_of (48 + k))" if "k < 10" for k :: nat
    using that by (simp add: isSpace_def Let_def)
  show ?case
  proof (cases "n < 10")
    case True
    then show ?thesis using dig [of n] by (subst (1 2) natToString.simps) simp
  next
    case False
    then show ?thesis using 1 dig [of "n mod 10"]
      by (subst (1 2) natToString.simps) auto
  qed
qed

lemma trim_no_space: "s \<noteq> [] \<Longrightarrow> \<forall>c\<in>set s. \<not> isSpace c \<Longrightarrow> trim s = s"
  by (rule trim_id) simp

lemma trim_between: "\<not> isSpace a \<Longrightarrow> \<not> isSpace b \<Longrightarrow> trim (a # s @ [b]) = a # s @ [b]"
  by (rule trim_id) simp

lemma trim_JSON_stringify [simp]: "trim (JSON_stringify v) = JSON_stringify v"
proof (cases v)
  case (JNum n)
  then show ?thesis using natToString_digits
    by (auto simp: intToString_def isSpace_def intro!: trim_no_space)
next
  case (JStr s)
  have "trim (CHR 0x22 # concat (map quoteChar s) @ [CHR 0x22]) = CHR 0x22 # concat (map quoteChar s) @ [CHR 0x22]"
    by (rule trim_between) (simp_all add: isSpace_def)
  then show ?thesis using JStr by (simp add: quoteJSON_def)
next
  case (JArr xs)
  have "trim (CHR ''['' # joinWith '','' (stringifyElements xs) @ [CHR '']'']) = CHR ''['' # joinWith '','' (stringifyElements xs) @ [CHR '']'']"
    by (rule trim_between) (simp_all add: isSpace_def)
  then show ?thesis using JArr by simp
next
  case (JObj ps)
  have "trim (CHR ''{'' # joinWith '','' (stringifyMembers ps) @ [CHR ''}'']) = CHR ''{'' # joinWith '','' (stringifyMembers ps) @ [CHR ''}'']"
    by (rule trim_between) (simp_all add: isSpace_def)
  then show ?thesis using JObj by simp
qed (auto simp: trim_def isSpace_def)

lemma JSON_stringify_nonempty [simp]: "JSON_stringify v \<noteq> []"
  using natToString_digits by (cases v) (auto simp: intToString_def quoteJSON_def)


lemma dropWhile_spaces:
  "\<forall>c\<in>set ws. isSpace c \<Longrightarrow> body \<noteq> [] \<Longrightarrow> \<not> isSpace (hd body) \<Longrightarrow>
   dropWhile isSpace (ws @ body @ rest) = body @ rest"
  by (cases body) (auto simp: dropWhile_append)

lemma trim_trailing:
  assumes "\<forall>c\<in>set ws. isSpace c" "body \<noteq> []" "trim body = body"
  shows "trim (body @ ws) = body"
proof -
  have ends: "\<not> isSpace (hd body)" "\<not> isSpace (last body)"
    using trim_ends [of body] assms by simp_all
  have "dropWhile isSpace (body @ ws) = body @ ws"
    using assms(2) ends(1) by (cases body) auto
  moreover have "dropWhile isSpace (rev ws @ rev body) = rev body"
    using dropWhile_spaces [of "rev ws" "rev body" "[]"] assms ends by (simp add: hd_rev)
  ultimately show ?thesis by (simp add: trim_def)
qed

lemma stripFenceClose_fenced:
  assumes "\<forall>c\<in>set ws. isSpace c"
  shows "stripFenceClose (text @ ''```'' @ ws) = text"
proof -
  have "dropWhile isSpace (rev ws @ ''```'' @ rev text) = ''```'' @ rev text"
    using dropWhile_spaces [of "rev ws" "''```''" "rev text"] assms by (simp add: isSpace_def)
  then have "rev (dropWhile isSpace (rev (text @ ''```'' @ ws))) = text @ ''```''"
    by simp
  then show ?thesis by (simp add: stripFenceClose_def Let_def suffix_def)
qed

lemma cleanJSONText_fenced_json:
  assumes ws: "\<forall>c\<in>set ws1. isSpace c" "\<forall>c\<in>set ws2. isSpace c" "\<forall>c\<in>set ws3. isSpace c"
    and body: "body \<noteq> []" "trim body = body" "hd body \<noteq> CHR ''`''"
    and tag: "toLowerCase tag = ''json''"
  shows "cleanJSONText (''```'' @ tag @ ws1 @ body @ ws2 @ ''```'' @ ws3) = body"
proof -
  have ends: "\<not> isSpace (hd body)" "\<not> isSpace (last body)"
    using trim_ends [of body] body by simp_all
  have "length (toLowerCase tag) = 4" unfolding tag by simp
  then have len: "length tag = 4" by (simp add: toLowerCase_def)
  let ?rest = "body @ ws2 @ ''```'' @ ws3"
  have a: "dropWhile isSpace (ws1 @ ?rest) = ?rest"
    using dropWhile_spaces [OF ws(1) body(1) ends(1)] by simp
  have j: "stripFenceJson (''```'' @ tag @ ws1 @ ?rest) = ?rest"
    using a tag len by (simp add: stripFenceJson_def)
  have o: "stripFenceOpen ?rest = ?rest"
    using body(1,3) by (cases body) (simp_all add: stripFenceOpen_def)
  have c: "stripFenceClose ?rest = body @ ws2"
    using stripFenceClose_fenced [OF ws(3), of "body @ ws2"] by simp
  show ?thesis
    using j o c trim_trailing [OF ws(2) body(1,2)] by (simp add: cleanJSONText_def)
qed


lemma cleanJSONText_plain:
  assumes "\<forall>c\<in>set ws1. isSpace c" "\<forall>c\<in>set ws2. isSpace c"
    and body: "body \<noteq> []" "trim body = body" "hd body \<noteq> CHR ''`''" "last body \<noteq> CHR ''`''"
  shows "cleanJSONText (ws1 @ body @ ws2) = body"
proof -
  have ends: "\<not> isSpace (hd body)" "\<not> isSpace (last body)"
    using trim_ends [of body] body by simp_all
  let ?s = "ws1 @ body @ ws2"
  have h: "hd ?s \<noteq> CHR ''`''"
    using assms(1) body by (cases ws1) (auto simp: isSpace_def)
  have ne: "?s \<noteq> []" using body by simp
  have j: "stripFenceJson ?s = ?s" using h ne by (cases ?s) (simp_all add: stripFenceJson_def)
  have o: "stripFenceOpen ?s = ?s" using h ne by (cases ?s) (simp_all add: stripFenceOpen_def)
  have "dropWhile isSpace (rev ws2 @ rev body @ rev ws1) = rev body @ rev ws1"
    using dropWhile_spaces [of "rev ws2" "rev body" "rev ws1"] assms(2) body ends by (simp add: hd_rev)
  then have "rev (dropWhile isSpace (rev ?s)) = ws1 @ body" by simp
  moreover have "\<not> suffix ''```'' (ws1 @ body)"
    using body(1,4) by (auto simp: suffix_def) (metis last_appendR last_snoc append_assoc append.right_neutral append_Cons append_Nil not_Cons_self2)
  ultimately have c: "stripFenceClose ?s = ?s" by (simp add: stripFenceClose_def Let_def)
  have d1: "dropWhile isSpace ?s = body @ ws2"
    using dropWhile_spaces [OF assms(1) body(1) ends(1), of ws2] by simp
  have d2: "dropWhile isSpace (rev ws2 @ rev body) = rev body"
    using dropWhile_spaces [of "rev ws2" "rev body" "[]"] assms(2) body ends by (simp add: hd_rev)
  have "trim ?s = body" unfolding trim_def d1 using d2 by simp
  then show ?thesis using j o c by (simp add: cleanJSONText_def)
qed

text \<open>So \<open>tryParseJSON\<close> reads JSON text whether it stands alone or inside a code fence,
  tagged or not, with white space around it.\<close>

lemma tryParseJSON_fenced:
  assumes "\<forall>c\<in>set ws1. isSpace c" "\<forall>c\<in>set ws2. isSpace c" "\<forall>c\<in>set ws3. isSpace c"
    and "body \<noteq> []" "trim body = body" "hd body \<noteq> CHR ''`''" "last body \<noteq> CHR ''`''"
    and "JSON_parse h body = Some v"
  shows "tryParseJSON h (JStr (ws1 @ body @ ws2)) = v"
    and "tryParseJSON h (JStr (''```json'' @ ws1 @ body @ ws2 @ ''```'' @ ws3)) = v"
    and "tryParseJSON h (JStr (''```JSON'' @ ws1 @ body @ ws2 @ ''```'' @ ws3)) = v"
proof -
  have l: "toLowerCase ''json'' = ''json''" "toLowerCase ''JSON'' = ''json''"
    by code_simp+
  show "tryParseJSON h (JStr (ws1 @ body @ ws2)) = v"
    using assms cleanJSONText_plain [of ws1 ws2 body] by (simp add: tryParseJSON_def)
  show "tryParseJSON h (JStr (''```json'' @ ws1 @ body @ ws2 @ ''```'' @ ws3)) = v"
    using assms cleanJSONText_fenced_json [of ws1 ws2 ws3 body "''json''", OF _ _ _ _ _ _ l(1)]
    by (simp add: tryParseJSON_def)
  show "tryParseJSON h (JStr (''```JSON'' @ ws1 @ body @ ws2 @ ''```'' @ ws3)) = v"
    using assms cleanJSONText_fenced_json [of ws1 ws2 ws3 body "''JSON''", OF _ _ _ _ _ _ l(2)]
    by (simp add: tryParseJSON_def)
qed

section \<open>The payload search\<close>

































section \<open>The fallbacks of the normalizer\<close>

lemma fallbackTextOf_JStr: "fallbackTextOf (JStr d) = trim d"
  by (simp add: fallbackTextOf_def parsedDataOf_def Let_def extractPlainText.simps [of "JStr d" 0])

lemma getAny_text: "t \<noteq> [] \<Longrightarrow> trim t = t \<Longrightarrow> getAnyTextFallback data t = t"
  by (simp add: getAnyTextFallback_def)

lemma getAny_fallbackText:
  "fallbackTextOf data \<noteq> [] \<Longrightarrow> getAnyTextFallback data (fallbackTextOf data) = fallbackTextOf data"
  by (simp add: getAny_text)

lemma getAny_no_text:
  "fallbackTextOf data = [] \<Longrightarrow>
   getAnyTextFallback data [] =
     (if JSON_stringify data \<noteq> ''{}'' \<and> JSON_stringify data \<noteq> ''[]'' then JSON_stringify data else [])"
  by (cases data) (auto simp: getAnyTextFallback_def fallbackTextOf_JStr Let_def)

lemma normalize_JNull [simp]: "normalizeStandardPayload JNull = JNull"
  by (simp add: normalizeStandardPayload_def)

lemma standardPayload_props [simp]:
  "truthy (standardPayload a b c d)" "\<not> isStringProp (standardPayload a b c d) ''result''"
  by (simp_all add: standardPayload_def isStringProp_def)

lemma normalize_standardPayload:
  "a \<noteq> [] \<Longrightarrow> normalizeStandardPayload (standardPayload a b c d) = standardPayload a b c d"
  by (auto simp add: normalizeStandardPayload_def standardPayload_def Let_def)

lemma normalize_full:
  assumes "getProp p ''name'' = Some (JStr a)" "a \<noteq> []"
    "getProp p ''category'' = Some (JStr b)" "b \<noteq> []"
    "getProp p ''description'' = Some (JStr c)" "c \<noteq> []"
    "getProp p ''fun_fact'' = Some (JStr d)" "d \<noteq> []"
  shows "normalizeStandardPayload p = standardPayload a b c d"
proof -
  from assms(1) obtain ps where "p = JObj ps" by (cases p) auto
  then show ?thesis using assms by (simp add: normalizeStandardPayload_def Let_def)
qed

lemma build_unparsed:
  "t \<noteq> [] \<Longrightarrow> trim t = t \<Longrightarrow> \<not> truthy (normalizeStandardPayload (tryParseJSON h (JStr t))) \<Longrightarrow>
   buildFallbackStandardPayload h t = standardPayload ''Unknown'' [] t []"
  by (simp add: buildFallbackStandardPayload_def Let_def)

lemma build_empty [simp]: "buildFallbackStandardPayload h [] = JNull"
  by (simp add: buildFallbackStandardPayload_def)

lemma hotdogPayload_props [simp]:
  "truthy (hotdogPayload r t)" "isStringProp (hotdogPayload r t) ''result''"
  "propOr (hotdogPayload r t) ''result'' [] = JStr r"
  "propOr (hotdogPayload r t) ''reason'' [] = JStr t"
  by (simp_all add: hotdogPayload_def isStringProp_def propOr_def)


text \<open>The last resort of the handler, the stringified message after
  \<open>buildFallbackStandardPayload\<close> has found nothing, is never taken: the fallback only
  finds nothing when there is no text to show at all.\<close>

lemma getAny_trimmed: "trim (getAnyTextFallback data preferred) = getAnyTextFallback data preferred"
proof -
  have "trim (case data of JStr d \<Rightarrow> trim d | _ \<Rightarrow> []) = (case data of JStr d \<Rightarrow> trim d | _ \<Rightarrow> [])"
    by (cases data) simp_all
  then show ?thesis by (simp add: getAnyTextFallback_def Let_def)
qed

lemma build_truthy: "trim t \<noteq> [] \<Longrightarrow> truthy (buildFallbackStandardPayload h t)"
  by (simp add: buildFallbackStandardPayload_def Let_def)

lemma emergency_text_empty:
  "\<not> truthy (buildFallbackStandardPayload h (getAnyTextFallback data preferred)) \<Longrightarrow>
   getAnyTextFallback data preferred = []"
  using build_truthy [of "getAnyTextFallback data preferred" h] by (auto simp: getAny_trimmed)

section \<open>The state machine\<close>

lemmas handler_defs =
  startup_def loadSettings_def addErrorToast_def initialApp_def updateToggles_def
  onSideClick_def onLongPress_def onBackButton_def onSettingsButton_def onToggleHotdog_def
  onToggleVoice_def saveSettings_def closeSettings_def returnToCamera_def doCapture_def
  captureFrame_def sendToLLM_def beginRequest_def endRequest_def showError_def setState_def
  screenOf_def llmWatchdog_def

lemmas host_defs = sampleHost_def devHost_def brokenHost_def

lemma setState_simps [simp]:
  "state (setState h n s) = n"
  "activeRequest (setState h n s) = activeRequest s"
  "hdVerdict (setState h n s) = hdVerdict s"
  "hdIcon (setState h n s) = hdIcon s"
  "hdReason (setState h n s) = hdReason s"
  "toast (setState h n s) = toast s"
  "settings (setState h n s) = settings s"
  by (simp_all add: setState_def)

lemma endRequest_simps [simp]:
  "activeRequest (endRequest s) = None" "state (endRequest s) = state s"
  "toast (endRequest s) = toast s"
  by (simp_all add: endRequest_def)

lemma showResult_standard:
  "state (showResult h (standardPayload a b c d) s) = RESULT"
  "resultName (showResult h (standardPayload a b c d) s) = (if a = [] then ''Unknown'' else a)"
  "resultCategory (showResult h (standardPayload a b c d) s) = b"
  "resultCategoryShown (showResult h (standardPayload a b c d) s) = (b \<noteq> [])"
  "resultDescription (showResult h (standardPayload a b c d) s) = c"
  "resultFact (showResult h (standardPayload a b c d) s) = d"
  "resultPage (showResult h (standardPayload a b c d) s) = 1"
  "activeRequest (showResult h p s) = activeRequest s"
  "llmTimer (showResult h p s) = None"
  "activeScreens (showResult h p s) = [S_result]"
  by (simp_all add: showResult_def standardPayload_def propOr_def setState_def showResultPage_def screenOf_def Let_def)

lemma showHotdog_verdict:
  "\<exists>s'. showHotdogResult h (hotdogPayload r t) s = Some s' \<and> state s' = HD_RESULT \<and>
     hdVerdict s' = (if includes_str (toUpperCase r) ''HOT DOG'' \<and> \<not> includes_str (toUpperCase r) ''NOT HOT DOG''
                     then ''HOT DOG'' else ''NOT HOT DOG'') \<and>
     hdIcon s' = Some (if includes_str (toUpperCase r) ''HOT DOG'' \<and> \<not> includes_str (toUpperCase r) ''NOT HOT DOG''
                       then Icon_hot_dog else Icon_prohibited) \<and>
     hdReason s' = t \<and> activeRequest s' = activeRequest s"
  by (simp add: showHotdogResult_def Let_def)

lemma showHotdog_result:
  assumes "getProp p ''result'' = Some (JStr r)" "r \<noteq> []"
  shows "\<exists>s'. showHotdogResult h p s = Some s' \<and> state s' = HD_RESULT \<and>
     hdVerdict s' = (if includes_str (toUpperCase r) ''HOT DOG'' \<and> \<not> includes_str (toUpperCase r) ''NOT HOT DOG''
                     then ''HOT DOG'' else ''NOT HOT DOG'') \<and>
     hdReason s' = toStringJS (propOr p ''reason'' []) \<and> activeRequest s' = activeRequest s \<and>
     llmTimer s' = None"
  using assms by (simp add: showHotdogResult_def propOr_def Let_def setState_def)


section \<open>The branches of the response handler\<close>

lemma handle_idle: "\<not> accepting s \<Longrightarrow> handleLLMResponse h data s = Some s"
  by (simp add: handleLLMResponse_def accepting_def)

lemma handle_hot_structured:
  assumes "accepting s" "isHotdogFlow s" "truthy (structuredOf h data)"
    "isStringProp (structuredOf h data) ''result''"
  shows "handleLLMResponse h data s =
         showHotdogResult h (structuredOf h data) (endRequest (s\<lparr>llmTimer := None\<rparr>))"
  using assms by (auto simp add: handleLLMResponse_def Let_def accepting_def)

lemma handle_hot_structured_other:
  assumes "accepting s" "isHotdogFlow s" "truthy (structuredOf h data)"
    "\<not> isStringProp (structuredOf h data) ''result''"
  shows "handleLLMResponse h data s =
         showHotdogResult h
           (let maybeText = getAnyTextFallback data (fallbackTextOf data) in
            hotdogPayload (if includes_str (toUpperCase maybeText) ''NOT HOT DOG'' then ''NOT HOT DOG'' else ''HOT DOG'')
              (if maybeText \<noteq> [] then maybeText else ''Unable to classify.''))
           (endRequest (s\<lparr>llmTimer := None\<rparr>))"
  using assms by (auto simp add: handleLLMResponse_def Let_def accepting_def)

lemma handle_hot_text:
  assumes "accepting s" "isHotdogFlow s" "\<not> truthy (structuredOf h data)"
    "includes_str (toUpperCase (fallbackTextOf data)) ''HOT DOG''"
  shows "handleLLMResponse h data s =
         showHotdogResult h
           (hotdogPayload
              (if includes_str (toUpperCase (fallbackTextOf data)) ''NOT HOT DOG'' then ''NOT HOT DOG'' else ''HOT DOG'')
              (if length (fallbackTextOf data) \<le> 200 then fallbackTextOf data else ''Unable to classify.''))
           (endRequest (s\<lparr>llmTimer := None\<rparr>))"
  using assms by (auto simp add: handleLLMResponse_def Let_def accepting_def)

lemma handle_hot_dropped:
  assumes "isHotdogFlow s" "\<not> truthy (structuredOf h data)"
    "\<not> includes_str (toUpperCase (fallbackTextOf data)) ''HOT DOG''"
  shows "handleLLMResponse h data s = Some s"
  using assms by (auto simp add: handleLLMResponse_def Let_def accepting_def)

lemma handle_standard_structured:
  assumes "accepting s" "\<not> isHotdogFlow s" "truthy (structuredOf h data)"
    "isStringProp (structuredOf h data) ''result''"
  shows "handleLLMResponse h data s =
         Some (showResult h (structuredOf h data) (endRequest (s\<lparr>llmTimer := None\<rparr>)))"
  using assms by (auto simp add: handleLLMResponse_def Let_def accepting_def)

lemma handle_standard_normalized:
  assumes "accepting s" "\<not> isHotdogFlow s" "truthy (structuredOf h data)"
    "\<not> isStringProp (structuredOf h data) ''result''" "truthy (normalizeStandardPayload (structuredOf h data))"
  shows "handleLLMResponse h data s =
         Some (showResult h (normalizeStandardPayload (structuredOf h data)) (endRequest (s\<lparr>llmTimer := None\<rparr>)))"
  using assms by (auto simp add: handleLLMResponse_def Let_def accepting_def)

lemma handle_standard_fallback:
  assumes "accepting s" "\<not> isHotdogFlow s" "\<not> truthy (structuredOf h data)"
    "buildFallbackStandardPayload h (getAnyTextFallback data (fallbackTextOf data)) =
       standardPayload a b c d" "a \<noteq> []"
  shows "handleLLMResponse h data s =
         Some (showResult h (standardPayload a b c d) (endRequest (s\<lparr>llmTimer := None\<rparr>)))"
  using assms by (auto simp add: handleLLMResponse_def Let_def accepting_def normalize_standardPayload)

lemma handle_standard_text:
  assumes "accepting s" "\<not> isHotdogFlow s" "\<not> truthy (structuredOf h data)"
    "buildFallbackStandardPayload h (getAnyTextFallback data (fallbackTextOf data)) =
       standardPayload ''Unknown'' [] t []"
  shows "handleLLMResponse h data s =
         Some (showResult h (standardPayload ''Unknown'' [] t []) (endRequest (s\<lparr>llmTimer := None\<rparr>)))"
  using handle_standard_fallback [OF assms] by simp

lemma handle_standard_dropped:
  assumes "\<not> isHotdogFlow s" "\<not> truthy (structuredOf h data)"
    "getAnyTextFallback data (fallbackTextOf data) = []"
  shows "handleLLMResponse h data s = Some s"
  using assms by (auto simp add: handleLLMResponse_def Let_def)


text \<open>The handler does not throw: \<open>showHotdogResult\<close> is only reached with a
  result that is a string.\<close>

lemma propOr_result_string:
  "isStringProp p ''result'' \<Longrightarrow> \<exists>r. propOr p ''result'' [] = JStr r"
  by (auto simp: isStringProp_def propOr_def split: option.splits js.splits)

lemma showHotdog_returns:
  "isStringProp p ''result'' \<Longrightarrow> \<exists>s'. showHotdogResult h p s = Some s'"
  using propOr_result_string [of p] by (auto simp: showHotdogResult_def Let_def)

lemma handle_returns: "\<exists>s'. handleLLMResponse h data s = Some s'"
  unfolding handleLLMResponse_def Let_def
  by (auto simp: showHotdog_returns split: option.splits)

text \<open>What the toast shows does not change what the handler does with a message.\<close>

lemma flow_toast [simp]:
  "waitingForResponse (s\<lparr>toast := t, errorTimer := e\<rparr>) = waitingForResponse s"
  "isHotdogFlow (s\<lparr>toast := t, errorTimer := e\<rparr>) = isHotdogFlow s"
  by (simp_all add: waitingForResponse_def isHotdogFlow_def)

lemma showResult_toast:
  "withoutToast (showResult h p (endRequest (s\<lparr>toast := t, errorTimer := e, llmTimer := None\<rparr>))) =
   withoutToast (showResult h p (endRequest (s\<lparr>llmTimer := None\<rparr>)))"
  by (simp add: withoutToast_def showResult_def endRequest_def setState_def showResultPage_def Let_def)

lemma showHotdog_toast:
  "map_option withoutToast (showHotdogResult h p (endRequest (s\<lparr>toast := t, errorTimer := e, llmTimer := None\<rparr>))) =
   map_option withoutToast (showHotdogResult h p (endRequest (s\<lparr>llmTimer := None\<rparr>)))"
  by (simp add: withoutToast_def showHotdogResult_def endRequest_def setState_def Let_def split: js.splits)

lemma failed_toast:
  "withoutToast (setState h CAMERA (showError m (endRequest (s\<lparr>toast := t, errorTimer := e, llmTimer := None\<rparr>)))) =
   withoutToast (setState h CAMERA (showError m (endRequest (s\<lparr>llmTimer := None\<rparr>))))"
  by (simp add: withoutToast_def showError_def endRequest_def setState_def Let_def split: option.splits)

lemma withoutToast_upd: "withoutToast (s\<lparr>toast := t, errorTimer := e\<rparr>) = withoutToast s"
  by (simp add: withoutToast_def)

lemma handle_toast:
  "map_option withoutToast (handleLLMResponse h data (s\<lparr>toast := t, errorTimer := e\<rparr>)) =
   map_option withoutToast (handleLLMResponse h data s)"
  unfolding handleLLMResponse_def Let_def
  by (simp add: showResult_toast showHotdog_toast failed_toast withoutToast_upd split: option.splits)

lemma watchdog_cases:
  "llmWatchdog s = s \<or>
   llmWatchdog s = s\<lparr>toast := Some \<lparr>toastText = Some Still_waiting, toastShown = True\<rparr>,
                     errorTimer := Some 3000\<rparr>"
  by (simp add: llmWatchdog_def showError_def split: option.splits)

lemma watchdog_keeps [simp]:
  "state (llmWatchdog s) = state s" "activeRequest (llmWatchdog s) = activeRequest s"
  "llmTimer (llmWatchdog s) = llmTimer s"
  "waitingForResponse (llmWatchdog s) = waitingForResponse s"
  "isHotdogFlow (llmWatchdog s) = isHotdogFlow s"
  using watchdog_cases [of s] by (auto simp: waitingForResponse_def isHotdogFlow_def)

lemma handle_after_watchdog:
  "map_option withoutToast (handleLLMResponse h data (llmWatchdog s)) =
   map_option withoutToast (handleLLMResponse h data s)"
  using watchdog_cases [of s] handle_toast [where s = s and h = h and data = data] by auto


text \<open>Once the page has started, the toast element exists.\<close>

lemma handle_keeps_toast:
  "handleLLMResponse h data s = Some s' \<Longrightarrow> toast s \<noteq> None \<Longrightarrow> toast s' \<noteq> None"
  unfolding handleLLMResponse_def Let_def
  by (auto simp: showResult_def showHotdogResult_def showResultPage_def showError_def endRequest_def
        setState_def Let_def split: if_splits option.splits js.splits)

lemma reachable_toast: "reachable h s \<Longrightarrow> toast s \<noteq> None"
proof (induction rule: reachable.induct)
  case (message s data s')
  then show ?case using handle_keeps_toast by blast
qed (auto simp: handler_defs errorTimeout_def onScrollUp_def onScrollDown_def onCredit_def
       showResultPage_def Let_def split: STATES.splits option.splits if_splits)

section \<open>The example states\<close>

lemma ready_eq:
  "ready = (initialApp None)\<lparr>toast := Some \<lparr>toastText = None, toastShown = False\<rparr>\<rparr>"
  by (simp add: ready_def handler_defs host_defs)

lemma analyzing_facts: "state analyzing = ANALYZING \<and> \<not> isHotdogFlow analyzing \<and> waitingForResponse analyzing \<and> llmTimer analyzing = Some 20000"
  by (simp add: analyzing_def ready_def handler_defs host_defs Let_def isHotdogFlow_def waitingForResponse_def RESPONSE_TIMEOUT_MS_def)

lemma hdAnalyzing_facts: "state hdAnalyzing = HD_ANALYZING \<and> isHotdogFlow hdAnalyzing \<and> waitingForResponse hdAnalyzing"
  by (simp add: hdAnalyzing_def hdReady_def ready_def handler_defs host_defs Let_def isHotdogFlow_def waitingForResponse_def RESPONSE_TIMEOUT_MS_def)

lemma hdAnalyzing_flag: "hotdog (settings hdAnalyzing)"
  by (simp add: hdAnalyzing_def hdReady_def ready_def handler_defs host_defs Let_def isHotdogFlow_def waitingForResponse_def RESPONSE_TIMEOUT_MS_def)

lemma request_facts:
  "activeRequest analyzing \<noteq> None" "toast analyzing \<noteq> None"
  "activeRequest hdAnalyzing \<noteq> None" "toast hdAnalyzing \<noteq> None"
  by (simp_all add: analyzing_def hdAnalyzing_def hdReady_def ready_def handler_defs host_defs Let_def)

lemma toggled_facts:
  "state (onToggleHotdog sampleHost hdAnalyzing) = HD_ANALYZING"
  "\<not> hotdog (settings (onToggleHotdog sampleHost hdAnalyzing))"
  "isHotdogFlow (onToggleHotdog sampleHost hdAnalyzing)"
  "accepting (onToggleHotdog sampleHost hdAnalyzing)"
  by (simp_all add: hdAnalyzing_def hdReady_def ready_def handler_defs host_defs Let_def
        isHotdogFlow_def waitingForResponse_def accepting_def)

lemma hot_json_facts:
  \<open>structuredOf sampleHost (JStr ''{"result":"HOT DOG","reason":"It is."}'') =
     JObj [(''result'', JStr ''HOT DOG''), (''reason'', JStr ''It is.'')]\<close>
  by code_simp

lemma hdResultFlagOff_facts:
  "state hdResultFlagOff = HD_RESULT" "\<not> hotdog (settings hdResultFlagOff)"
proof -
  let ?s = "onToggleHotdog sampleHost hdAnalyzing"
  let ?p = "JObj [(''result'', JStr ''HOT DOG''), (''reason'', JStr ''It is.'')]"
  have "hdResultFlagOff = the (showHotdogResult sampleHost ?p (endRequest (?s\<lparr>llmTimer := None\<rparr>)))"
    unfolding hdResultFlagOff_def
    using handle_hot_structured [OF toggled_facts(4) toggled_facts(3), of sampleHost]
    by (simp add: hot_json_facts isStringProp_def)
  then have e: "hdResultFlagOff = setState sampleHost HD_RESULT
      ((endRequest (?s\<lparr>llmTimer := None\<rparr>))\<lparr>hdIcon := Some Icon_hot_dog, hdVerdict := ''HOT DOG'',
         hdReason := ''It is.'', borderColor := Some ''#22c55e''\<rparr>)"
    by (simp add: showHotdogResult_def propOr_def Let_def isHD_literals sampleHost_def)
  show "state hdResultFlagOff = HD_RESULT" by (simp add: e)
  show "\<not> hotdog (settings hdResultFlagOff)" using toggled_facts(2) by (simp add: e endRequest_def)
qed

section \<open>Hot-dog verdict from plain text\<close>

lemma yes_facts:
  "\<not> truthy (structuredOf sampleHost yesText)"
  "fallbackTextOf yesText = ''Looks like a hot dog to me.''"
  "includes_str (toUpperCase (fallbackTextOf yesText)) ''HOT DOG''"
  "\<not> includes_str (toUpperCase (fallbackTextOf yesText)) ''NOT HOT DOG''"
  by code_simp+

lemma no_facts:
  "\<not> truthy (structuredOf sampleHost noText)"
  "fallbackTextOf noText = ''Verdict: Not Hot Dog. It is a stapler.''"
  "includes_str (toUpperCase (fallbackTextOf noText)) ''NOT HOT DOG''"
  by code_simp+

lemma long_facts:
  "\<not> truthy (structuredOf sampleHost longText)"
  "fallbackTextOf longText = ''hot dog'' @ replicate 200 (CHR ''!'')"
  "includes_str (toUpperCase (fallbackTextOf longText)) ''HOT DOG''"
  "\<not> includes_str (toUpperCase (fallbackTextOf longText)) ''NOT HOT DOG''"
  by code_simp+


text \<open>
  C2. In the hot-dog flow, when no structured payload is found, the text extracted from
  the message decides the verdict. If its upper-cased form contains \<open>HOT DOG\<close> and not
  \<open>NOT HOT DOG\<close>, the hot-dog result screen shows the verdict \<open>HOT DOG\<close>; if the text
  (or its upper-cased form) contains \<open>NOT HOT DOG\<close>, it shows \<open>NOT HOT DOG\<close>, whatever
  else the text holds. The reason shown is the text itself when it has at most 200
  characters, and \<open>Unable to classify.\<close> otherwise.
\<close>

theorem hotdog_text_verdict:
  "(waitingForResponse s \<or> activeRequest s \<noteq> None) \<and> isHotdogFlow s \<and>
   \<not> truthy (structuredOf h data) \<longrightarrow>
     (includes_str (toUpperCase (fallbackTextOf data)) ''HOT DOG'' \<and>
      \<not> includes_str (toUpperCase (fallbackTextOf data)) ''NOT HOT DOG'' \<longrightarrow>
        (\<exists>s'. handleLLMResponse h data s = Some s' \<and> state s' = HD_RESULT \<and>
              hdVerdict s' = ''HOT DOG'' \<and> hdIcon s' = Some Icon_hot_dog \<and>
              hdReason s' = (if length (fallbackTextOf data) \<le> 200 then fallbackTextOf data
                             else ''Unable to classify.''))) \<and>
     (includes_str (fallbackTextOf data) ''NOT HOT DOG'' \<or>
      includes_str (toUpperCase (fallbackTextOf data)) ''NOT HOT DOG'' \<longrightarrow>
        (\<exists>s'. handleLLMResponse h data s = Some s' \<and> state s' = HD_RESULT \<and>
              hdVerdict s' = ''NOT HOT DOG'' \<and> hdIcon s' = Some Icon_prohibited \<and>
              hdReason s' = (if length (fallbackTextOf data) \<le> 200 then fallbackTextOf data
                             else ''Unable to classify.'')))"
proof (intro impI conjI)
  assume a: "(waitingForResponse s \<or> activeRequest s \<noteq> None) \<and> isHotdogFlow s \<and>
   \<not> truthy (structuredOf h data)"
  then have acc: "accepting s" by (simp add: accepting_def)
  let ?t = "fallbackTextOf data"
  let ?reason = "if length ?t \<le> 200 then ?t else ''Unable to classify.''"
  {
    assume y: "includes_str (toUpperCase ?t) ''HOT DOG'' \<and> \<not> includes_str (toUpperCase ?t) ''NOT HOT DOG''"
    then have "handleLLMResponse h data s =
        showHotdogResult h (hotdogPayload ''HOT DOG'' ?reason) (endRequest (s\<lparr>llmTimer := None\<rparr>))"
      using handle_hot_text [OF acc, of h data] a by simp
    then show "\<exists>s'. handleLLMResponse h data s = Some s' \<and> state s' = HD_RESULT \<and>
              hdVerdict s' = ''HOT DOG'' \<and> hdIcon s' = Some Icon_hot_dog \<and> hdReason s' = ?reason"
      using showHotdog_verdict [of h "''HOT DOG''" ?reason "endRequest (s\<lparr>llmTimer := None\<rparr>)"]
      by (auto simp: isHD_literals)
  }
  {
    assume "includes_str ?t ''NOT HOT DOG'' \<or> includes_str (toUpperCase ?t) ''NOT HOT DOG''"
    then have n: "includes_str (toUpperCase ?t) ''NOT HOT DOG''"
      using includes_upper_NOT_HOT_DOG by blast
    then have "handleLLMResponse h data s =
        showHotdogResult h (hotdogPayload ''NOT HOT DOG'' ?reason) (endRequest (s\<lparr>llmTimer := None\<rparr>))"
      using handle_hot_text [OF acc, of h data] a includes_HOT_DOG_of_NOT [OF n] by simp
    then show "\<exists>s'. handleLLMResponse h data s = Some s' \<and> state s' = HD_RESULT \<and>
              hdVerdict s' = ''NOT HOT DOG'' \<and> hdIcon s' = Some Icon_prohibited \<and> hdReason s' = ?reason"
      using showHotdog_verdict [of h "''NOT HOT DOG''" ?reason "endRequest (s\<lparr>llmTimer := None\<rparr>)"]
      by (auto simp: isHD_literals)
  }
qed

theorem hotdog_text_verdict_witness:
  "waitingForResponse hdAnalyzing \<and> isHotdogFlow hdAnalyzing \<and>
   \<not> truthy (structuredOf sampleHost yesText) \<and>
   includes_str (toUpperCase (fallbackTextOf yesText)) ''HOT DOG'' \<and>
   \<not> includes_str (toUpperCase (fallbackTextOf yesText)) ''NOT HOT DOG'' \<and>
   (\<exists>s'. handleLLMResponse sampleHost yesText hdAnalyzing = Some s' \<and> state s' = HD_RESULT \<and>
      hdVerdict s' = ''HOT DOG'' \<and> hdIcon s' = Some Icon_hot_dog \<and>
      hdReason s' = ''Looks like a hot dog to me.'') \<and>
   \<not> truthy (structuredOf sampleHost noText) \<and>
   includes_str (toUpperCase (fallbackTextOf noText)) ''NOT HOT DOG'' \<and>
   (\<exists>s'. handleLLMResponse sampleHost noText hdAnalyzing = Some s' \<and> state s' = HD_RESULT \<and>
      hdVerdict s' = ''NOT HOT DOG'' \<and> hdIcon s' = Some Icon_prohibited \<and>
      hdReason s' = ''Verdict: Not Hot Dog. It is a stapler.'') \<and>
   \<not> truthy (structuredOf sampleHost longText) \<and>
   (\<exists>s'. handleLLMResponse sampleHost longText hdAnalyzing = Some s' \<and> state s' = HD_RESULT \<and>
      hdVerdict s' = ''HOT DOG'' \<and> hdIcon s' = Some Icon_hot_dog \<and>
      hdReason s' = ''Unable to classify.'')"
  using hotdog_text_verdict [of hdAnalyzing sampleHost yesText]
    hotdog_text_verdict [of hdAnalyzing sampleHost noText]
    hotdog_text_verdict [of hdAnalyzing sampleHost longText]
    hdAnalyzing_facts yes_facts no_facts long_facts
  by simp


section \<open>The watchdog and late responses\<close>

lemma mug_facts:
  "structuredOf sampleHost mugAnswer = standardPayload ''Mug'' ''Kitchenware'' ''A drinking vessel.'' ''Ceramic mugs date back millennia.''"
  by code_simp

lemma stapler_facts:
  "structuredOf sampleHost staplerAnswer = hotdogPayload ''NOT HOT DOG'' ''It is a stapler.''"
  by code_simp


text \<open>
  C3. The watchdog, armed with 20000 ms when the message has been posted, is advisory.
  Its callback changes neither the state nor the active request; in an analyzing state it only shows the notice that the page is still
  waiting. A message handled after the callback has run is handled as it would have
  been without it, the toast apart. So while the request is still active, a standard
  payload with its four fields is rendered on the result screen (page 1, the request
  ended, the timer cleared), and a hot-dog payload on the hot-dog result screen with
  the verdict its \<open>result\<close> gives.
\<close>

theorem late_response_honoured:
  "(pluginHandler h = Some True \<longrightarrow>
      llmTimer (sendToLLM h imageBase64 s) = Some 20000 \<and>
      activeRequest (sendToLLM h imageBase64 s) \<noteq> None) \<and>
   state (llmWatchdog s) = state s \<and> activeRequest (llmWatchdog s) = activeRequest s \<and>
   ((state s = ANALYZING \<or> state s = HD_ANALYZING) \<and> toast s \<noteq> None \<longrightarrow>
      toast (llmWatchdog s) = Some \<lparr>toastText = Some Still_waiting, toastShown = True\<rparr>) \<and>
   map_option withoutToast (handleLLMResponse h data (llmWatchdog s)) =
     map_option withoutToast (handleLLMResponse h data s) \<and>
   (activeRequest s \<noteq> None \<and> \<not> isHotdogFlow s \<and> truthy (structuredOf h data) \<and>
    \<not> isStringProp (structuredOf h data) ''result'' \<and>
    getProp (structuredOf h data) ''name'' = Some (JStr a) \<and> a \<noteq> [] \<and>
    getProp (structuredOf h data) ''category'' = Some (JStr b) \<and> b \<noteq> [] \<and>
    getProp (structuredOf h data) ''description'' = Some (JStr c) \<and> c \<noteq> [] \<and>
    getProp (structuredOf h data) ''fun_fact'' = Some (JStr d) \<and> d \<noteq> [] \<longrightarrow>
      (\<exists>s'. handleLLMResponse h data (llmWatchdog s) = Some s' \<and> state s' = RESULT \<and>
            resultName s' = a \<and> resultCategory s' = b \<and> resultDescription s' = c \<and>
            resultFact s' = d \<and> resultPage s' = 1 \<and> activeRequest s' = None \<and>
            llmTimer s' = None)) \<and>
   (activeRequest s \<noteq> None \<and> isHotdogFlow s \<and> truthy (structuredOf h data) \<and>
    getProp (structuredOf h data) ''result'' = Some (JStr r) \<and> r \<noteq> [] \<longrightarrow>
      (\<exists>s'. handleLLMResponse h data (llmWatchdog s) = Some s' \<and> state s' = HD_RESULT \<and>
            hdVerdict s' = (if includes_str (toUpperCase r) ''HOT DOG'' \<and>
                               \<not> includes_str (toUpperCase r) ''NOT HOT DOG''
                            then ''HOT DOG'' else ''NOT HOT DOG'') \<and>
            hdReason s' = toStringJS (propOr (structuredOf h data) ''reason'' []) \<and>
            activeRequest s' = None \<and> llmTimer s' = None))"
proof (intro conjI impI)
  show "state (llmWatchdog s) = state s" "activeRequest (llmWatchdog s) = activeRequest s"
    by simp_all
  {
    assume "pluginHandler h = Some True"
    then show "llmTimer (sendToLLM h imageBase64 s) = Some 20000"
      "activeRequest (sendToLLM h imageBase64 s) \<noteq> None"
      by (simp_all add: sendToLLM_def beginRequest_def RESPONSE_TIMEOUT_MS_def Let_def)
  }
  show "map_option withoutToast (handleLLMResponse h data (llmWatchdog s)) =
     map_option withoutToast (handleLLMResponse h data s)"
    by (rule handle_after_watchdog)
next
  assume "(state s = ANALYZING \<or> state s = HD_ANALYZING) \<and> toast s \<noteq> None"
  then show "toast (llmWatchdog s) = Some \<lparr>toastText = Some Still_waiting, toastShown = True\<rparr>"
    by (auto simp: llmWatchdog_def showError_def)
next
  let ?p = "structuredOf h data"
  let ?w = "llmWatchdog s"
  assume a: "activeRequest s \<noteq> None \<and> \<not> isHotdogFlow s \<and> truthy ?p \<and>
    \<not> isStringProp ?p ''result'' \<and>
    getProp ?p ''name'' = Some (JStr a) \<and> a \<noteq> [] \<and>
    getProp ?p ''category'' = Some (JStr b) \<and> b \<noteq> [] \<and>
    getProp ?p ''description'' = Some (JStr c) \<and> c \<noteq> [] \<and>
    getProp ?p ''fun_fact'' = Some (JStr d) \<and> d \<noteq> []"
  then have n: "normalizeStandardPayload ?p = standardPayload a b c d"
    by (intro normalize_full) simp_all
  have acc: "accepting ?w" using a by (simp add: accepting_def)
  have "handleLLMResponse h data ?w =
        Some (showResult h (standardPayload a b c d) (endRequest (?w\<lparr>llmTimer := None\<rparr>)))"
    using handle_standard_normalized [OF acc, of h data] a n by simp
  then show "\<exists>s'. handleLLMResponse h data ?w = Some s' \<and> state s' = RESULT \<and>
            resultName s' = a \<and> resultCategory s' = b \<and> resultDescription s' = c \<and>
            resultFact s' = d \<and> resultPage s' = 1 \<and> activeRequest s' = None \<and>
            llmTimer s' = None"
    using a by (simp add: showResult_standard)
next
  let ?p = "structuredOf h data"
  let ?w = "llmWatchdog s"
  assume a: "activeRequest s \<noteq> None \<and> isHotdogFlow s \<and> truthy ?p \<and>
    getProp ?p ''result'' = Some (JStr r) \<and> r \<noteq> []"
  have acc: "accepting ?w" using a by (simp add: accepting_def)
  have "isStringProp ?p ''result''" using a by (simp add: isStringProp_def)
  then have "handleLLMResponse h data ?w = showHotdogResult h ?p (endRequest (?w\<lparr>llmTimer := None\<rparr>))"
    using handle_hot_structured [OF acc, of h data] a by simp
  then show "\<exists>s'. handleLLMResponse h data ?w = Some s' \<and> state s' = HD_RESULT \<and>
            hdVerdict s' = (if includes_str (toUpperCase r) ''HOT DOG'' \<and>
                               \<not> includes_str (toUpperCase r) ''NOT HOT DOG''
                            then ''HOT DOG'' else ''NOT HOT DOG'') \<and>
            hdReason s' = toStringJS (propOr ?p ''reason'' []) \<and>
            activeRequest s' = None \<and> llmTimer s' = None"
    using showHotdog_result [of ?p r h "endRequest (?w\<lparr>llmTimer := None\<rparr>)"] a by simp
qed

theorem late_response_honoured_witness:
  "pluginHandler sampleHost = Some True \<and>
   llmTimer (sendToLLM sampleHost (frame sampleHost) ready) = Some 20000 \<and>
   state analyzing = ANALYZING \<and> toast analyzing \<noteq> None \<and>
   toast (llmWatchdog analyzing) = Some \<lparr>toastText = Some Still_waiting, toastShown = True\<rparr> \<and>
   activeRequest (llmWatchdog analyzing) \<noteq> None \<and> \<not> isHotdogFlow analyzing \<and>
   structuredOf sampleHost mugAnswer =
     standardPayload ''Mug'' ''Kitchenware'' ''A drinking vessel.'' ''Ceramic mugs date back millennia.'' \<and>
   (\<exists>s'. handleLLMResponse sampleHost mugAnswer (llmWatchdog analyzing) = Some s' \<and> state s' = RESULT \<and>
      resultName s' = ''Mug'' \<and> resultCategory s' = ''Kitchenware'' \<and>
      resultDescription s' = ''A drinking vessel.'' \<and>
      resultFact s' = ''Ceramic mugs date back millennia.'' \<and> resultPage s' = 1 \<and>
      activeRequest s' = None \<and> llmTimer s' = None) \<and>
   state hdAnalyzing = HD_ANALYZING \<and> isHotdogFlow hdAnalyzing \<and>
   structuredOf sampleHost staplerAnswer = hotdogPayload ''NOT HOT DOG'' ''It is a stapler.'' \<and>
   (\<exists>s'. handleLLMResponse sampleHost staplerAnswer (llmWatchdog hdAnalyzing) = Some s' \<and>
      state s' = HD_RESULT \<and> hdVerdict s' = ''NOT HOT DOG'' \<and> hdReason s' = ''It is a stapler.'' \<and>
      activeRequest s' = None \<and> llmTimer s' = None)"
proof -
  have p: "pluginHandler sampleHost = Some True" by (simp add: sampleHost_def)
  show ?thesis
    using late_response_honoured [of sampleHost "frame sampleHost" analyzing mugAnswer
        "''Mug''" "''Kitchenware''" "''A drinking vessel.''"
        "''Ceramic mugs date back millennia.''" "''x''"]
      late_response_honoured [of sampleHost "frame sampleHost" hdAnalyzing staplerAnswer
        "''x''" "''x''" "''x''" "''x''" "''NOT HOT DOG''"]
      late_response_honoured [of sampleHost "frame sampleHost" ready mugAnswer
        "''x''" "''x''" "''x''" "''x''" "''x''"]
      p analyzing_facts hdAnalyzing_facts mug_facts stapler_facts request_facts isHD_literals
    by (simp add: standardPayload_def hotdogPayload_def isStringProp_def propOr_def)
qed


section \<open>Back from a result screen\<close>

lemma resultShown_facts:
  "state resultShown = RESULT" "\<not> hotdog (settings resultShown)"
  by (simp_all add: resultShown_def showResult_def showResultPage_def Let_def analyzing_def ready_def
        handler_defs host_defs)

lemma hdResultFlagOff_reachable: "reachable sampleHost hdResultFlagOff"
proof -
  let ?s = "onToggleHotdog sampleHost hdAnalyzing"
  let ?data = \<open>JStr ''{"result":"HOT DOG","reason":"It is."}''\<close>
  have "reachable sampleHost ready" unfolding ready_def by (rule reachable.started)
  then have "reachable sampleHost hdReady" unfolding hdReady_def
    by (intro reachable.sideClick reachable.toggleHotdog reachable.settingsButton)
  then have r: "reachable sampleHost ?s" unfolding hdAnalyzing_def
    by (intro reachable.sideClick reachable.toggleHotdog)
  have "handleLLMResponse sampleHost ?data ?s =
        showHotdogResult sampleHost (structuredOf sampleHost ?data) (endRequest (?s\<lparr>llmTimer := None\<rparr>))"
    using handle_hot_structured [OF toggled_facts(4) toggled_facts(3), of sampleHost ?data]
    by (simp add: hot_json_facts isStringProp_def)
  moreover have "\<exists>s'. showHotdogResult sampleHost (structuredOf sampleHost ?data)
                        (endRequest (?s\<lparr>llmTimer := None\<rparr>)) = Some s'"
    using showHotdog_result [of "structuredOf sampleHost ?data" "''HOT DOG''" sampleHost]
    by (simp add: hot_json_facts) blast
  ultimately obtain s' where s': "handleLLMResponse sampleHost ?data ?s = Some s'" by auto
  then have "hdResultFlagOff = s'" by (simp add: hdResultFlagOff_def)
  with reachable.message [OF r s'] show ?thesis by simp
qed

text \<open>
  C4 as stated fails: a short press on the hot-dog result screen goes to the hot-dog
  camera whatever the flag says. The state below is reached by the handlers alone, the
  hot-dog toggle being tapped while the request is pending; there the flag is off and
  the short press still leads to \<open>hd-camera\<close>.
\<close>

theorem short_press_ignores_flag:
  "reachable sampleHost hdResultFlagOff \<and>
   state hdResultFlagOff = HD_RESULT \<and> \<not> hotdog (settings hdResultFlagOff) \<and>
   state (onSideClick sampleHost hdResultFlagOff) = HD_CAMERA \<and>
   state (onSideClick sampleHost hdResultFlagOff) \<noteq>
     (if hotdog (settings hdResultFlagOff) then HD_CAMERA else CAMERA)"
  using hdResultFlagOff_facts hdResultFlagOff_reachable by (simp add: onSideClick_def)


text \<open>
  C4, amended. Every back interaction on a result screen leads to a camera state. On the
  result screen the short press, the long press and the back buttons go to the camera
  the hot-dog flag selects; on the hot-dog result screen the long press does so too,
  and the short press always goes to the hot-dog camera.
\<close>

theorem back_to_camera:
  "(state s = RESULT \<longrightarrow>
      state (onSideClick h s) = (if hotdog (settings s) then HD_CAMERA else CAMERA) \<and>
      state (onLongPress h s) = (if hotdog (settings s) then HD_CAMERA else CAMERA)) \<and>
   (state s = HD_RESULT \<longrightarrow>
      state (onSideClick h s) = HD_CAMERA \<and>
      state (onLongPress h s) = (if hotdog (settings s) then HD_CAMERA else CAMERA)) \<and>
   state (onBackButton h s) = (if hotdog (settings s) then HD_CAMERA else CAMERA)"
  by (simp add: onSideClick_def onLongPress_def onBackButton_def returnToCamera_def)

theorem back_to_camera_witness:
  "state resultShown = RESULT \<and> \<not> hotdog (settings resultShown) \<and>
   state (onSideClick sampleHost resultShown) = CAMERA \<and>
   state (onLongPress sampleHost resultShown) = CAMERA \<and>
   state hdResultFlagOff = HD_RESULT \<and>
   state (onSideClick sampleHost hdResultFlagOff) = HD_CAMERA \<and>
   state (onLongPress sampleHost hdResultFlagOff) = CAMERA \<and>
   state (onBackButton sampleHost resultShown) = CAMERA"
proof -
  note r = resultShown_facts
  show ?thesis
    using back_to_camera [of resultShown sampleHost] back_to_camera [of hdResultFlagOff sampleHost]
      r hdResultFlagOff_facts
    by simp
qed


section \<open>A post that throws\<close>

text \<open>
  C5. When \<open>postMessage\<close> throws, \<open>sendToLLM\<close> ends with the active request
  cleared, the watchdog not armed, the state back at the camera of the analyzing variant
  it was in, and, the toast element being there, the toast showing that the request
  failed. On a page that has started the toast element is there, so a capture from
  either camera state ends in that same camera state, with the request cleared and
  the failure shown.
\<close>

theorem send_failure:
  "pluginHandler h = Some False \<longrightarrow>
     activeRequest (sendToLLM h imageBase64 s) = None \<and>
     state (sendToLLM h imageBase64 s) = (if state s = HD_ANALYZING then HD_CAMERA else CAMERA) \<and>
     llmTimer (sendToLLM h imageBase64 s) = None \<and>
     (toast s \<noteq> None \<longrightarrow>
        toast (sendToLLM h imageBase64 s) =
          Some \<lparr>toastText = Some Request_failed, toastShown = True\<rparr>) \<and>
     (reachable h s \<and> (state s = CAMERA \<or> state s = HD_CAMERA) \<and>
      videoWidth h \<noteq> 0 \<and> frame h \<noteq> [] \<longrightarrow>
        activeRequest (doCapture h s) = None \<and> state (doCapture h s) = state s \<and>
        llmTimer (doCapture h s) = None \<and>
        toast (doCapture h s) = Some \<lparr>toastText = Some Request_failed, toastShown = True\<rparr>)"
proof (intro impI conjI)
  assume a: "pluginHandler h = Some False"
  then show "activeRequest (sendToLLM h imageBase64 s) = None"
    "state (sendToLLM h imageBase64 s) = (if state s = HD_ANALYZING then HD_CAMERA else CAMERA)"
    "llmTimer (sendToLLM h imageBase64 s) = None"
    by (auto simp: sendToLLM_def beginRequest_def endRequest_def showError_def setState_def Let_def
          split: option.splits)
  {
    assume "toast s \<noteq> None"
    with a show "toast (sendToLLM h imageBase64 s) =
          Some \<lparr>toastText = Some Request_failed, toastShown = True\<rparr>"
      by (auto simp: sendToLLM_def beginRequest_def endRequest_def showError_def setState_def Let_def)
  }
  {
    assume r: "reachable h s \<and> (state s = CAMERA \<or> state s = HD_CAMERA) \<and>
      videoWidth h \<noteq> 0 \<and> frame h \<noteq> []"
    then have "toast s \<noteq> None" using reachable_toast by blast
    with a r show "activeRequest (doCapture h s) = None" "state (doCapture h s) = state s"
      "llmTimer (doCapture h s) = None"
      "toast (doCapture h s) = Some \<lparr>toastText = Some Request_failed, toastShown = True\<rparr>"
      by (auto simp: doCapture_def captureFrame_def sendToLLM_def beginRequest_def endRequest_def
            showError_def setState_def Let_def)
  }
qed

theorem send_failure_witness:
  "pluginHandler brokenHost = Some False \<and> reachable brokenHost (startup brokenHost None) \<and>
   state (startup brokenHost None) = CAMERA \<and>
   videoWidth brokenHost \<noteq> 0 \<and> frame brokenHost \<noteq> [] \<and>
   activeRequest (doCapture brokenHost (startup brokenHost None)) = None \<and>
   state (doCapture brokenHost (startup brokenHost None)) = CAMERA \<and>
   toast (doCapture brokenHost (startup brokenHost None)) =
     Some \<lparr>toastText = Some Request_failed, toastShown = True\<rparr> \<and>
   toast (setState brokenHost HD_ANALYZING (startup brokenHost None)) \<noteq> None \<and>
   activeRequest (sendToLLM brokenHost (frame brokenHost)
                    (setState brokenHost HD_ANALYZING (startup brokenHost None))) = None \<and>
   state (sendToLLM brokenHost (frame brokenHost)
            (setState brokenHost HD_ANALYZING (startup brokenHost None))) = HD_CAMERA \<and>
   toast (sendToLLM brokenHost (frame brokenHost)
            (setState brokenHost HD_ANALYZING (startup brokenHost None))) =
     Some \<lparr>toastText = Some Request_failed, toastShown = True\<rparr>"
proof -
  have r: "reachable brokenHost (startup brokenHost None)"
    by (rule reachable.started)
  have f: "pluginHandler brokenHost = Some False" "state (startup brokenHost None) = CAMERA"
    "videoWidth brokenHost \<noteq> 0" "frame brokenHost \<noteq> []"
    "toast (setState brokenHost HD_ANALYZING (startup brokenHost None)) \<noteq> None"
    "state (setState brokenHost HD_ANALYZING (startup brokenHost None)) = HD_ANALYZING"
    by (simp_all add: handler_defs host_defs)
  show ?thesis
    using send_failure [of brokenHost "frame brokenHost" "startup brokenHost None"]
      send_failure [of brokenHost "frame brokenHost" "setState brokenHost HD_ANALYZING (startup brokenHost None)"]
      r f
    by simp
qed

section \<open>The fallback of the standard flow\<close>

lemma empty_facts:
  "\<not> truthy (structuredOf sampleHost (JObj []))" "fallbackTextOf (JObj []) = []"
  "JSON_stringify (JObj []) = ''{}''"
  "\<not> truthy (structuredOf sampleHost (JArr []))" "fallbackTextOf (JArr []) = []"
  "JSON_stringify (JArr []) = ''[]''"
  by code_simp+

lemma plain_facts:
  "\<not> truthy (structuredOf sampleHost plainAnswer)"
  "fallbackTextOf plainAnswer = ''It looks like a mug.''"
  "tryParseJSON sampleHost (JStr ''It looks like a mug.'') = JNull"
  by code_simp+

lemma number_facts:
  "\<not> truthy (structuredOf sampleHost bareNumber)"
  "fallbackTextOf bareNumber = []"
  "JSON_stringify bareNumber = ''[42,false]''"
  "normalizeStandardPayload (tryParseJSON sampleHost (JStr ''[42,false]'')) = JNull"
  by code_simp+


text \<open>A message without text whose JSON text reads back as an object with a title: the
  title is shown as the name, and the description stays empty.\<close>

lemma titled_number_facts:
  "\<not> truthy (structuredOf sampleHost (JObj [(''title'', JNum 5)]))"
  "fallbackTextOf (JObj [(''title'', JNum 5)]) = []"
  \<open>JSON_stringify (JObj [(''title'', JNum 5)]) = ''{"title":5}''\<close>
  \<open>buildFallbackStandardPayload sampleHost ''{"title":5}'' = standardPayload ''5'' [] [] []\<close>
  by code_simp+

lemma titled_number_shown_as_name:
  "\<exists>s'. handleLLMResponse sampleHost (JObj [(''title'', JNum 5)]) analyzing = Some s' \<and>
     state s' = RESULT \<and> resultName s' = ''5'' \<and> resultDescription s' = []"
proof -
  have acc: "accepting analyzing" using analyzing_facts by (simp add: accepting_def)
  have g: \<open>getAnyTextFallback (JObj [(''title'', JNum 5)]) (fallbackTextOf (JObj [(''title'', JNum 5)])) =
           ''{"title":5}''\<close>
    using getAny_no_text [of "JObj [(''title'', JNum 5)]"] titled_number_facts(2,3)
    by (simp only: titled_number_facts(2)) simp
  show ?thesis
    using handle_standard_fallback [OF acc, of sampleHost "JObj [(''title'', JNum 5)]" "''5''" "[]" "[]" "[]"]
      analyzing_facts titled_number_facts g
    by (simp add: showResult_standard)
qed

text \<open>Prose that quotes an object. With no result field in the object the prose is the
  description; with a title in it, the title is shown as the name and the prose is
  lost, although the prose as a whole is not JSON text.\<close>

lemma quoted_facts:
  "\<not> truthy (structuredOf sampleHost quotedAnswer)"
  \<open>fallbackTextOf quotedAnswer = ''see {"foo":1} above''\<close>
  \<open>tryParseJSON sampleHost (JStr ''see {"foo":1} above'') = JObj [(''foo'', JNum 1)]\<close>
  \<open>\<not> truthy (normalizeStandardPayload (tryParseJSON sampleHost (JStr ''see {"foo":1} above'')))\<close>
  by code_simp+

lemma titled_facts:
  "\<not> truthy (structuredOf sampleHost titledAnswer)"
  \<open>fallbackTextOf titledAnswer = ''Here: {"title":"Mug"}''\<close>
  \<open>JSON_parse sampleHost ''Here: {"title":"Mug"}'' = None\<close>
  \<open>buildFallbackStandardPayload sampleHost ''Here: {"title":"Mug"}'' = standardPayload ''Mug'' [] [] []\<close>
  by code_simp+

lemma titled_answer_shown_as_name:
  "handleLLMResponse sampleHost titledAnswer analyzing =
     Some (showResult sampleHost (standardPayload ''Mug'' [] [] [])
            (endRequest (analyzing\<lparr>llmTimer := None\<rparr>)))"
proof -
  have acc: "accepting analyzing" using analyzing_facts by (simp add: accepting_def)
  have g: \<open>getAnyTextFallback titledAnswer (fallbackTextOf titledAnswer) = ''Here: {"title":"Mug"}''\<close>
    using getAny_fallbackText [of titledAnswer] titled_facts(2) by simp
  show ?thesis
    using handle_standard_fallback [OF acc, of sampleHost titledAnswer "''Mug''" "[]" "[]" "[]"]
      analyzing_facts titled_facts g
    by simp
qed

text \<open>
  C6 as stated fails in both halves. Text that is not parseable JSON is not always the
  description: of the answer \<open>Here: {"title":"Mug"}\<close> the quoted object is read, the
  result is named \<open>Mug\<close> and its description is empty. And the empty object yields no
  payload and no text, yet it is not stringified into a description; the handler leaves
  the state as it is.
\<close>

theorem fallback_not_always_description:
  \<open>waitingForResponse analyzing \<and> \<not> isHotdogFlow analyzing \<and>
   \<not> truthy (structuredOf sampleHost titledAnswer) \<and>
   fallbackTextOf titledAnswer = ''Here: {"title":"Mug"}'' \<and>
   JSON_parse sampleHost (fallbackTextOf titledAnswer) = None \<and>
   map_option state (handleLLMResponse sampleHost titledAnswer analyzing) = Some RESULT \<and>
   map_option resultName (handleLLMResponse sampleHost titledAnswer analyzing) = Some ''Mug'' \<and>
   map_option resultDescription (handleLLMResponse sampleHost titledAnswer analyzing) = Some [] \<and>
   \<not> truthy (structuredOf sampleHost (JObj [])) \<and> fallbackTextOf (JObj []) = [] \<and>
   handleLLMResponse sampleHost (JObj []) analyzing = Some analyzing \<and>
   state analyzing = ANALYZING \<and> resultDescription analyzing \<noteq> JSON_stringify (JObj [])\<close>
proof -
  have "resultDescription analyzing = []"
    by (simp add: analyzing_def ready_def handler_defs host_defs Let_def)
  then show ?thesis
    using handle_standard_dropped [of analyzing sampleHost "JObj []"] analyzing_facts empty_facts
      titled_answer_shown_as_name titled_facts(1,2,3)
    by (simp add: getAny_no_text showResult_standard)
qed


text \<open>
  C6, amended. In the standard flow, when no structured payload is found: text extracted
  from the message becomes the description of a result named \<open>Unknown\<close> with empty
  category and fact, shown on the result screen, unless \<open>tryParseJSON\<close> reads from that
  text, as a whole or between its first \<open>{\<close> and its last \<open>}\<close>, an object with a name,
  category, description or fact of its own. When no text can be extracted, the JSON
  text of the whole message is shown as the description in the same way, provided that
  this text is neither \<open>{}\<close> nor \<open>[]\<close> and does not read back as an object with a name,
  category, description or fact of its own.
\<close>

theorem standard_text_fallback:
  "(waitingForResponse s \<or> activeRequest s \<noteq> None) \<and> \<not> isHotdogFlow s \<and>
   \<not> truthy (structuredOf h data) \<longrightarrow>
     (fallbackTextOf data \<noteq> [] \<and>
      \<not> truthy (normalizeStandardPayload (tryParseJSON h (JStr (fallbackTextOf data)))) \<longrightarrow>
        (\<exists>s'. handleLLMResponse h data s = Some s' \<and> state s' = RESULT \<and>
              resultName s' = ''Unknown'' \<and> resultCategory s' = [] \<and>
              resultDescription s' = fallbackTextOf data \<and> resultFact s' = [] \<and>
              activeRequest s' = None)) \<and>
     (fallbackTextOf data = [] \<and> JSON_stringify data \<noteq> ''{}'' \<and> JSON_stringify data \<noteq> ''[]'' \<and>
      normalizeStandardPayload (tryParseJSON h (JStr (JSON_stringify data))) = JNull \<longrightarrow>
        (\<exists>s'. handleLLMResponse h data s = Some s' \<and> state s' = RESULT \<and>
              resultName s' = ''Unknown'' \<and> resultCategory s' = [] \<and>
              resultDescription s' = JSON_stringify data \<and> resultFact s' = [] \<and>
              activeRequest s' = None))"
proof (intro impI conjI)
  assume a: "(waitingForResponse s \<or> activeRequest s \<noteq> None) \<and> \<not> isHotdogFlow s \<and>
   \<not> truthy (structuredOf h data)"
  then have acc: "accepting s" by (simp add: accepting_def)
  {
    assume t: "fallbackTextOf data \<noteq> [] \<and>
      \<not> truthy (normalizeStandardPayload (tryParseJSON h (JStr (fallbackTextOf data))))"
    let ?t = "fallbackTextOf data"
    have "buildFallbackStandardPayload h (getAnyTextFallback data ?t) = standardPayload ''Unknown'' [] ?t []"
      using t by (simp add: getAny_fallbackText build_unparsed)
    from handle_standard_text [OF acc _ _ this] a
    show "\<exists>s'. handleLLMResponse h data s = Some s' \<and> state s' = RESULT \<and>
              resultName s' = ''Unknown'' \<and> resultCategory s' = [] \<and>
              resultDescription s' = fallbackTextOf data \<and> resultFact s' = [] \<and>
              activeRequest s' = None"
      by (simp add: showResult_standard)
  }
  {
    assume t: "fallbackTextOf data = [] \<and> JSON_stringify data \<noteq> ''{}'' \<and> JSON_stringify data \<noteq> ''[]'' \<and>
      normalizeStandardPayload (tryParseJSON h (JStr (JSON_stringify data))) = JNull"
    let ?t = "JSON_stringify data"
    have "buildFallbackStandardPayload h (getAnyTextFallback data (fallbackTextOf data)) = standardPayload ''Unknown'' [] ?t []"
      using t by (simp add: getAny_no_text build_unparsed)
    from handle_standard_text [OF acc _ _ this] a
    show "\<exists>s'. handleLLMResponse h data s = Some s' \<and> state s' = RESULT \<and>
              resultName s' = ''Unknown'' \<and> resultCategory s' = [] \<and>
              resultDescription s' = JSON_stringify data \<and> resultFact s' = [] \<and>
              activeRequest s' = None"
      by (simp add: showResult_standard)
  }
qed

theorem standard_text_fallback_witness:
  \<open>waitingForResponse analyzing \<and> \<not> isHotdogFlow analyzing \<and>
   \<not> truthy (structuredOf sampleHost plainAnswer) \<and>
   fallbackTextOf plainAnswer = ''It looks like a mug.'' \<and>
   \<not> truthy (normalizeStandardPayload (tryParseJSON sampleHost (JStr (fallbackTextOf plainAnswer)))) \<and>
   (\<exists>s'. handleLLMResponse sampleHost plainAnswer analyzing = Some s' \<and> state s' = RESULT \<and>
      resultName s' = ''Unknown'' \<and> resultCategory s' = [] \<and>
      resultDescription s' = ''It looks like a mug.'' \<and> resultFact s' = [] \<and>
      activeRequest s' = None) \<and>
   \<not> truthy (structuredOf sampleHost quotedAnswer) \<and>
   fallbackTextOf quotedAnswer = ''see {"foo":1} above'' \<and>
   tryParseJSON sampleHost (JStr (fallbackTextOf quotedAnswer)) = JObj [(''foo'', JNum 1)] \<and>
   \<not> truthy (normalizeStandardPayload (tryParseJSON sampleHost (JStr (fallbackTextOf quotedAnswer)))) \<and>
   (\<exists>s'. handleLLMResponse sampleHost quotedAnswer analyzing = Some s' \<and> state s' = RESULT \<and>
      resultName s' = ''Unknown'' \<and> resultCategory s' = [] \<and>
      resultDescription s' = ''see {"foo":1} above'' \<and> resultFact s' = [] \<and>
      activeRequest s' = None) \<and>
   \<not> truthy (structuredOf sampleHost bareNumber) \<and> fallbackTextOf bareNumber = [] \<and>
   JSON_stringify bareNumber = ''[42,false]'' \<and>
   normalizeStandardPayload (tryParseJSON sampleHost (JStr (JSON_stringify bareNumber))) = JNull \<and>
   (\<exists>s'. handleLLMResponse sampleHost bareNumber analyzing = Some s' \<and> state s' = RESULT \<and>
      resultName s' = ''Unknown'' \<and> resultCategory s' = [] \<and>
      resultDescription s' = ''[42,false]'' \<and> resultFact s' = [] \<and>
      activeRequest s' = None)\<close>
  using standard_text_fallback [of analyzing sampleHost plainAnswer]
    standard_text_fallback [of analyzing sampleHost quotedAnswer]
    standard_text_fallback [of analyzing sampleHost bareNumber]
    analyzing_facts plain_facts quoted_facts number_facts normalize_JNull
  by simp


section \<open>Settings round trip\<close>

lemma settings_blob:
  \<open>JSON_stringify (settingsObject \<lparr>voice = True, hotdog = True\<rparr>) = ''{"voice":true,"hotdog":true}''\<close>
  \<open>JSON_stringify (settingsObject \<lparr>voice = True, hotdog = False\<rparr>) = ''{"voice":true,"hotdog":false}''\<close>
  \<open>JSON_stringify (settingsObject \<lparr>voice = False, hotdog = True\<rparr>) = ''{"voice":false,"hotdog":true}''\<close>
  \<open>JSON_stringify (settingsObject \<lparr>voice = False, hotdog = False\<rparr>) = ''{"voice":false,"hotdog":false}''\<close>
  by code_simp+

lemma atob_btoa_settings:
  \<open>atob (btoa ''{"voice":true,"hotdog":true}'') = Some ''{"voice":true,"hotdog":true}''\<close>
  \<open>atob (btoa ''{"voice":true,"hotdog":false}'') = Some ''{"voice":true,"hotdog":false}''\<close>
  \<open>atob (btoa ''{"voice":false,"hotdog":true}'') = Some ''{"voice":false,"hotdog":true}''\<close>
  \<open>atob (btoa ''{"voice":false,"hotdog":false}'') = Some ''{"voice":false,"hotdog":false}''\<close>
  by code_simp+

lemma btoa_nonempty: "s \<noteq> [] \<Longrightarrow> btoa s \<noteq> []"
  by (cases "map of_char s :: nat list" rule: encodeBytes.cases) (auto simp: btoa_def)

lemma atob_btoa_blob:
  "atob (btoa (JSON_stringify (settingsObject st))) = Some (JSON_stringify (settingsObject st))"
proof -
  obtain v hd where st: "st = \<lparr>voice = v, hotdog = hd\<rparr>" by (cases st) auto
  show ?thesis unfolding st
    by (cases v; cases hd) (simp_all only: settings_blob atob_btoa_settings)
qed

lemma settings_of_object:
  "\<lparr>voice = truthyProp (settingsObject st) ''voice'', hotdog = truthyProp (settingsObject st) ''hotdog''\<rparr> = st"
  by (simp add: truthyProp_def settingsObject_def)

lemma load_settings_simps [simp]:
  "settings (addErrorToast s) = settings s"
  by (simp add: addErrorToast_def)

lemma voiceOn_facts:
  "settings voiceOn = \<lparr>voice = True, hotdog = False\<rparr>"
  \<open>stored voiceOn = Some (btoa ''{"voice":true,"hotdog":false}'')\<close>
  by (simp_all add: voiceOn_def ready_def handler_defs host_defs Let_def settings_blob)

lemma parse_blob:
  \<open>readJSON ''{"voice":true,"hotdog":false}'' = Some (settingsObject \<lparr>voice = True, hotdog = False\<rparr>)\<close>
  by code_simp

lemma corrupt_facts:
  "atob ''not base64!'' = None"
  "atob (btoa ''{voice'') = Some ''{voice''" "readJSON ''{voice'' = None"
  by code_simp+


text \<open>
  C7. With the store present and a \<open>JSON.parse\<close> that reads back the text
  \<open>JSON.stringify\<close> wrote for the settings, saving the settings and starting the page
  again over the same store gives the same settings; this holds for \<open>{voice: true,
  hotdog: false}\<close> as for the other three. When the store holds nothing, an empty
  text, text that \<open>atob\<close> rejects, or base64 of text that \<open>JSON.parse\<close> rejects, the
  page starts with \<open>{voice: false, hotdog: false}\<close>; \<open>loadSettings\<close> returns a state
  in every case.
\<close>

theorem settings_round_trip:
  "(hasStorage h \<and>
    JSON_parse h (JSON_stringify (settingsObject (settings s))) = Some (settingsObject (settings s)) \<longrightarrow>
      settings (restart h (saveSettings h s)) = settings s) \<and>
   (stored s = None \<or> stored s = Some [] \<or>
    (\<exists>raw. stored s = Some raw \<and>
       (atob raw = None \<or> (\<exists>decoded. atob raw = Some decoded \<and> JSON_parse h decoded = None))) \<longrightarrow>
      settings (restart h s) = \<lparr>voice = False, hotdog = False\<rparr>)"
proof (intro conjI impI)
  assume a: "hasStorage h \<and>
    JSON_parse h (JSON_stringify (settingsObject (settings s))) = Some (settingsObject (settings s))"
  let ?blob = "JSON_stringify (settingsObject (settings s))"
  have ne: "btoa ?blob \<noteq> []" by (rule btoa_nonempty) simp
  have obj: "settingsObject (settings s) \<noteq> JNull" by (simp add: settingsObject_def)
  show "settings (restart h (saveSettings h s)) = settings s"
    using a ne obj
    by (simp add: restart_def startup_def saveSettings_def loadSettings_def initialApp_def
          updateToggles_def atob_btoa_blob settings_of_object Let_def)
next
  assume "stored s = None \<or> stored s = Some [] \<or>
    (\<exists>raw. stored s = Some raw \<and>
       (atob raw = None \<or> (\<exists>decoded. atob raw = Some decoded \<and> JSON_parse h decoded = None)))"
  then show "settings (restart h s) = \<lparr>voice = False, hotdog = False\<rparr>"
    by (auto simp: restart_def startup_def loadSettings_def initialApp_def updateToggles_def Let_def)
qed

theorem settings_round_trip_witness:
  "hasStorage sampleHost \<and> settings voiceOn = \<lparr>voice = True, hotdog = False\<rparr> \<and>
   JSON_parse sampleHost (JSON_stringify (settingsObject (settings voiceOn))) =
     Some (settingsObject (settings voiceOn)) \<and>
   settings (restart sampleHost (saveSettings sampleHost voiceOn)) = \<lparr>voice = True, hotdog = False\<rparr> \<and>
   settings (restart sampleHost voiceOn) = \<lparr>voice = True, hotdog = False\<rparr> \<and>
   stored ready = None \<and> settings (restart sampleHost ready) = \<lparr>voice = False, hotdog = False\<rparr> \<and>
   atob ''not base64!'' = None \<and>
   settings (restart sampleHost corruptStore) = \<lparr>voice = False, hotdog = False\<rparr> \<and>
   atob (btoa ''{voice'') = Some ''{voice'' \<and> JSON_parse sampleHost ''{voice'' = None \<and>
   settings (restart sampleHost notJsonStore) = \<lparr>voice = False, hotdog = False\<rparr>"
proof -
  have h: "hasStorage sampleHost" "JSON_parse sampleHost = readJSON" by (simp_all add: sampleHost_def)
  have p: "JSON_parse sampleHost (JSON_stringify (settingsObject (settings voiceOn))) =
     Some (settingsObject (settings voiceOn))"
    by (simp add: h voiceOn_facts settings_blob parse_blob)
  have same: "saveSettings sampleHost voiceOn = voiceOn"
    by (simp add: saveSettings_def h voiceOn_facts settings_blob)
  have s: "stored ready = None" "stored corruptStore = Some ''not base64!''"
    "stored notJsonStore = Some (btoa ''{voice'')"
    by (simp_all add: corruptStore_def notJsonStore_def ready_def handler_defs host_defs)
  show ?thesis
    using settings_round_trip [of sampleHost voiceOn] settings_round_trip [of sampleHost ready]
      settings_round_trip [of sampleHost corruptStore] settings_round_trip [of sampleHost notJsonStore]
      h p same s corrupt_facts voiceOn_facts
    by simp
qed


section \<open>The watchdog timer and the transitions\<close>

text \<open>
  C8 as stated fails in its second half: the transition into an analyzing state does
  not arm the watchdog. After \<open>setState\<close> alone the timer is still \<open>null\<close>, and in
  dev mode a whole capture ends in \<open>analyzing\<close> with no watchdog.
\<close>

theorem entering_analyzing_does_not_arm:
  "state (setState sampleHost ANALYZING ready) = ANALYZING \<and>
   llmTimer (setState sampleHost ANALYZING ready) = None \<and>
   state (onSideClick devHost ready) = ANALYZING \<and> llmTimer (onSideClick devHost ready) = None"
  by (simp add: ready_def handler_defs host_defs)


text \<open>
  C8, amended. A transition to a state other than the two analyzing ones clears the
  watchdog timer, as a side effect of \<open>setState\<close>. A transition into an analyzing
  state leaves the timer as it was; the timer is armed, with 20000 ms, by \<open>sendToLLM\<close>
  once the message has been posted. So a capture from a camera state, with a frame and a
  post that returns, ends in the analyzing state with the watchdog armed.
\<close>

theorem watchdog_timer_and_transitions:
  "(newState \<noteq> ANALYZING \<and> newState \<noteq> HD_ANALYZING \<longrightarrow> llmTimer (setState h newState s) = None) \<and>
   (newState = ANALYZING \<or> newState = HD_ANALYZING \<longrightarrow>
      llmTimer (setState h newState s) = llmTimer s) \<and>
   (pluginHandler h = Some True \<longrightarrow>
      llmTimer (sendToLLM h imageBase64 s) = Some RESPONSE_TIMEOUT_MS \<and>
      state (sendToLLM h imageBase64 s) = state s) \<and>
   ((state s = CAMERA \<or> state s = HD_CAMERA) \<and> pluginHandler h = Some True \<and>
    videoWidth h \<noteq> 0 \<and> frame h \<noteq> [] \<longrightarrow>
      state (doCapture h s) = (if state s = HD_CAMERA then HD_ANALYZING else ANALYZING) \<and>
      llmTimer (doCapture h s) = Some RESPONSE_TIMEOUT_MS)"
  by (auto simp: doCapture_def captureFrame_def sendToLLM_def beginRequest_def setState_def Let_def)

theorem watchdog_timer_and_transitions_witness:
  "llmTimer analyzing = Some 20000 \<and> state analyzing = ANALYZING \<and>
   llmTimer (setState sampleHost RESULT analyzing) = None \<and>
   llmTimer (setState sampleHost HD_ANALYZING analyzing) = Some 20000 \<and>
   pluginHandler sampleHost = Some True \<and> state ready = CAMERA \<and>
   videoWidth sampleHost \<noteq> 0 \<and> frame sampleHost \<noteq> [] \<and>
   llmTimer (sendToLLM sampleHost (frame sampleHost) ready) = Some 20000 \<and>
   state (doCapture sampleHost ready) = ANALYZING \<and>
   llmTimer (doCapture sampleHost ready) = Some 20000"
proof -
  have f: "pluginHandler sampleHost = Some True" "state ready = CAMERA"
    "videoWidth sampleHost \<noteq> 0" "frame sampleHost \<noteq> []"
    by (simp_all add: ready_def handler_defs host_defs)
  show ?thesis
    using watchdog_timer_and_transitions [of RESULT sampleHost analyzing "frame sampleHost"]
      watchdog_timer_and_transitions [of HD_ANALYZING sampleHost analyzing "frame sampleHost"]
      watchdog_timer_and_transitions [of RESULT sampleHost ready "frame sampleHost"]
      f analyzing_facts
    by (simp add: RESPONSE_TIMEOUT_MS_def)
qed


section \<open>Empty values are discarded\<close>

text \<open>
  C9. In the standard flow, a message that yields no structured payload and no text and
  whose JSON text is \<open>{}\<close> or \<open>[]\<close> is dropped: \<open>handleLLMResponse\<close> returns the
  state it was given, with the same state of the machine, the same active request and
  the same toast.
\<close>

theorem empty_value_discarded:
  "\<not> isHotdogFlow s \<and> \<not> truthy (structuredOf h data) \<and> fallbackTextOf data = [] \<and>
   (JSON_stringify data = ''{}'' \<or> JSON_stringify data = ''[]'') \<longrightarrow>
     handleLLMResponse h data s = Some s"
  using handle_standard_dropped [of s h data] by (auto simp: getAny_no_text)

theorem empty_value_discarded_witness:
  "state analyzing = ANALYZING \<and> \<not> isHotdogFlow analyzing \<and>
   \<not> truthy (structuredOf sampleHost (JObj [])) \<and> fallbackTextOf (JObj []) = [] \<and>
   JSON_stringify (JObj []) = ''{}'' \<and>
   handleLLMResponse sampleHost (JObj []) analyzing = Some analyzing \<and>
   \<not> truthy (structuredOf sampleHost (JArr [])) \<and> fallbackTextOf (JArr []) = [] \<and>
   JSON_stringify (JArr []) = ''[]'' \<and>
   handleLLMResponse sampleHost (JArr []) analyzing = Some analyzing"
  using empty_value_discarded [of analyzing sampleHost "JObj []"]
    empty_value_discarded [of analyzing sampleHost "JArr []"] analyzing_facts empty_facts
  by simp


section \<open>The moderation filter\<close>

lemma filter_facts:
  "check sampleFilter (Some ''Well, DARN it'') = offensive"
  "check sampleFilter (Some ''d.a.r.n'') = offensive"
  "check sampleFilter (Some ''what the heck'') = inappropriate"
  "check sampleFilter (Some ''checkmate'') = allClean"
  by code_simp+


text \<open>
  C10. \<open>check\<close> answers clean for \<open>null\<close>, \<open>undefined\<close> and the empty text, whatever
  the tables and whatever the engine would match. \<open>checkAll\<close> is unclean exactly when
  \<open>check\<close> flags the title or the description; a flagged title is answered with the
  title's own result, also when the description is flagged too; a clean title with a
  flagged description is answered with the description's result.
\<close>

theorem profanity_check_all:
  "check cfg None = \<lparr>clean = True, reason = None\<rparr> \<and>
   check cfg (Some []) = \<lparr>clean = True, reason = None\<rparr> \<and>
   (\<not> clean (checkAll cfg title description) \<longleftrightarrow>
      \<not> clean (check cfg title) \<or> \<not> clean (check cfg description)) \<and>
   (\<not> clean (check cfg title) \<longrightarrow> checkAll cfg title description = check cfg title) \<and>
   (clean (check cfg title) \<and> \<not> clean (check cfg description) \<longrightarrow>
      checkAll cfg title description = check cfg description) \<and>
   (clean (check cfg title) \<and> clean (check cfg description) \<longrightarrow>
      checkAll cfg title description = \<lparr>clean = True, reason = None\<rparr>)"
  by (auto simp: check_def checkAll_def allClean_def Let_def)

theorem profanity_check_all_witness:
  "\<not> clean (check sampleFilter (Some ''Well, DARN it'')) \<and>
   \<not> clean (check sampleFilter (Some ''what the heck'')) \<and>
   clean (check sampleFilter (Some ''checkmate'')) \<and>
   checkAll sampleFilter (Some ''Well, DARN it'') (Some ''what the heck'') =
     \<lparr>clean = False, reason = Some ''Content contains offensive language.''\<rparr> \<and>
   checkAll sampleFilter (Some ''checkmate'') (Some ''what the heck'') =
     \<lparr>clean = False, reason = Some ''Content contains inappropriate language.''\<rparr> \<and>
   checkAll sampleFilter (Some ''checkmate'') None = \<lparr>clean = True, reason = None\<rparr> \<and>
   check sampleFilter None = \<lparr>clean = True, reason = None\<rparr>"
  using profanity_check_all [of sampleFilter "Some ''Well, DARN it''" "Some ''what the heck''"]
    profanity_check_all [of sampleFilter "Some ''checkmate''" "Some ''what the heck''"]
    profanity_check_all [of sampleFilter "Some ''checkmate''" None]
    filter_facts
  by (simp add: offensive_def inappropriate_def allClean_def)

end
